theory Spec2Isabelle
  imports Complex_Main
begin

section \<open>Text primitives\<close>

text \<open>
  Python \<open>str\<close> values are modelled as \<^typ>\<open>string\<close>: the UTF-8 bytes of the text.
  Substring search and the removal of a fixed substring commute with the UTF-8 encoding, so
  \<open>in\<close> and \<open>replace\<close> are exact on it. \<open>strip\<close>, \<open>split\<close> and the slice of
  \<open>analyze\<close> work on the characters of the text, with the whitespace of Unicode. Case folding and the classes of
  the regular expressions are those of ASCII; every phrase of the lexicons and of the fact
  registry is ASCII, except for the rupee sign, which has no case.
\<close>

definition upper_letters :: string where
  "upper_letters = ''ABCDEFGHIJKLMNOPQRSTUVWXYZ''"

definition lower_letters :: string where
  "lower_letters = ''abcdefghijklmnopqrstuvwxyz''"

definition digits :: string where
  "digits = ''0123456789''"

definition lower_char :: "char \<Rightarrow> char" where
  "lower_char c = (case map_of (zip upper_letters lower_letters) c of Some l \<Rightarrow> l | None \<Rightarrow> c)"

definition lower :: "string \<Rightarrow> string" where
  "lower s = map lower_char s"

definition is_space :: "char \<Rightarrow> bool" where
  "is_space c \<longleftrightarrow> List.member [CHR 0x09, CHR 0x0A, CHR 0x0B, CHR 0x0C, CHR 0x0D,
                               CHR 0x1C, CHR 0x1D, CHR 0x1E, CHR 0x1F, CHR 0x20] c"

text \<open>\<open>p in s\<close>: \<open>p\<close> occurs in \<open>s\<close> as a contiguous block.\<close>

fun starts_with :: "string \<Rightarrow> string \<Rightarrow> bool" where
  "starts_with s [] = True"
| "starts_with [] (p # ps) = False"
| "starts_with (c # cs) (p # ps) = (if c = p then starts_with cs ps else False)"

fun str_in :: "string \<Rightarrow> string \<Rightarrow> bool" where
  "str_in p [] = (p = [])"
| "str_in p (c # cs) = (if starts_with (c # cs) p then True else str_in p cs)"

text \<open>\<open>s.replace(old, '')\<close> for a non-empty \<open>old\<close>: occurrences are removed from left to
  right, without overlap.\<close>

fun remove_all :: "string \<Rightarrow> string \<Rightarrow> string" where
  "remove_all old [] = []"
| "remove_all old (c # cs) =
     (if old \<noteq> [] \<and> starts_with (c # cs) old
      then remove_all old (drop (length old) (c # cs))
      else c # remove_all old cs)"

text \<open>
  The characters of a text. The first byte of a character tells how many bytes encode it:
  one for \<open>0xxxxxxx\<close>, two for \<open>110xxxxx\<close>, three for \<open>1110xxxx\<close>, four for \<open>11110xxx\<close>.
\<close>

definition utf8_len :: "char \<Rightarrow> nat" where
  "utf8_len c =
     (if \<not> digit7 c then 1 else if \<not> digit6 c then 1 else if \<not> digit5 c then 2
      else if \<not> digit4 c then 3 else 4)"

fun chars :: "string \<Rightarrow> string list" where
  "chars [] = []"
| "chars (c # cs) = (c # take (utf8_len c - 1) cs) # chars (drop (utf8_len c - 1) cs)"

text \<open>
  The characters for which \<open>str.isspace\<close> holds, which are those that \<open>strip\<close> and \<open>split\<close>
  remove: U+0009 to U+000D, U+001C to U+0020 (the ones of \<open>is_space\<close>), and U+0085,
  U+00A0, U+1680, U+2000 to U+200A, U+2028, U+2029, U+202F, U+205F and U+3000, as they are
  encoded.
\<close>

definition WHITESPACE :: "string list" where
  "WHITESPACE =
     [[CHR 0xC2, CHR 0x85], [CHR 0xC2, CHR 0xA0], [CHR 0xE1, CHR 0x9A, CHR 0x80],
      [CHR 0xE2, CHR 0x80, CHR 0x80], [CHR 0xE2, CHR 0x80, CHR 0x81],
      [CHR 0xE2, CHR 0x80, CHR 0x82], [CHR 0xE2, CHR 0x80, CHR 0x83],
      [CHR 0xE2, CHR 0x80, CHR 0x84], [CHR 0xE2, CHR 0x80, CHR 0x85],
      [CHR 0xE2, CHR 0x80, CHR 0x86], [CHR 0xE2, CHR 0x80, CHR 0x87],
      [CHR 0xE2, CHR 0x80, CHR 0x88], [CHR 0xE2, CHR 0x80, CHR 0x89],
      [CHR 0xE2, CHR 0x80, CHR 0x8A], [CHR 0xE2, CHR 0x80, CHR 0xA8],
      [CHR 0xE2, CHR 0x80, CHR 0xA9], [CHR 0xE2, CHR 0x80, CHR 0xAF],
      [CHR 0xE2, CHR 0x81, CHR 0x9F], [CHR 0xE3, CHR 0x80, CHR 0x80]]"

definition is_whitespace :: "string \<Rightarrow> bool" where
  "is_whitespace ch = (case ch of [c] \<Rightarrow> is_space c | _ \<Rightarrow> List.member WHITESPACE ch)"

text \<open>\<open>s.strip()\<close> and \<open>s.split()\<close> (splitting at runs of whitespace), and \<open>s[:n]\<close>.\<close>

definition strip :: "string \<Rightarrow> string" where
  "strip s = concat (rev (dropWhile is_whitespace (rev (dropWhile is_whitespace (chars s)))))"

fun split_ws :: "string \<Rightarrow> string list \<Rightarrow> string list" where
  "split_ws cur [] = (if cur = [] then [] else [rev cur])"
| "split_ws cur (ch # chs) =
     (if is_whitespace ch then (if cur = [] then split_ws [] chs else rev cur # split_ws [] chs)
      else split_ws (rev ch @ cur) chs)"

definition split :: "string \<Rightarrow> string list" where
  "split s = split_ws [] (chars s)"

definition slice_to :: "nat \<Rightarrow> string \<Rightarrow> string" where
  "slice_to n s = concat (take n (chars s))"

text \<open>The rupee sign U+20B9, as it is encoded.\<close>

definition rupee :: string where
  "rupee = [CHR 0xE2, CHR 0x82, CHR 0xB9]"

section \<open>Sentiment analysis (sentiment\_analysis.py)\<close>

definition POSITIVE_LEXICON :: "string list" where
  "POSITIVE_LEXICON =
    [''excited'', ''great'', ''wonderful'', ''optimistic'', ''confident'', ''happy'',
     ''growth'', ''profit'', ''gain'', ''return'', ''opportunity'', ''bullish'',
     ''ahead'', ''plan'', ''goal'', ''achieve'', ''improve'', ''learn'',
     ''interested'', ''curious'', ''ready'']"

definition NEGATIVE_LEXICON :: "string list" where
  "NEGATIVE_LEXICON =
    [''worried'', ''anxious'', ''scared'', ''afraid'', ''stressed'', ''confused'',
     ''loss'', ''debt'', ''broke'', ''struggling'', ''problem'', ''help'', ''panic'',
     ''crash'', ''recession'', ''inflation'', ''layoff'', ''fired'', ''bankrupt'',
     ''overwhelmed'', ''desperate'', ''stuck'']"

definition ANXIETY_LEXICON :: "string list" where
  "ANXIETY_LEXICON =
    [''scared'', ''terrified'', ''panic'', ''anxious'', ''anxiety'', ''worried'',
     ''nervous'', ''overwhelmed'', ''hopeless'', ''desperate'', ''can'' @ [CHR 0x27] @ ''t afford'',
     ''cannot afford'', ''running out'', ''losing money'', ''in trouble'',
     ''bad decision'', ''made a mistake'', ''emergency'']"

definition URGENCY_LEXICON :: "string list" where
  "URGENCY_LEXICON =
    [''asap'', ''immediately'', ''right now'', ''urgent'', ''deadline'', ''soon'',
     ''this week'', ''today'', ''by tomorrow'', ''before april'', ''before filing'',
     ''running out of time'', ''need to know now'', ''quickly'', ''fast'']"

definition LOW_CONFIDENCE_LEXICON :: "string list" where
  "LOW_CONFIDENCE_LEXICON =
    [''don'' @ [CHR 0x27] @ ''t know'', ''do not know'', ''confused'', ''not sure'', ''unsure'',
     ''no idea'', ''beginner'', ''newbie'', ''just starting'', ''never invested'',
     ''first time'', ''what is'', ''can you explain'', ''help me understand'',
     ''i don'' @ [CHR 0x27] @ ''t understand'', ''what does'', ''what are'']"

definition HIGH_CONFIDENCE_LEXICON :: "string list" where
  "HIGH_CONFIDENCE_LEXICON =
    [''i know'', ''i understand'', ''i already'', ''i have been'', ''experienced'',
     ''advanced'', ''i want to optimize'', ''compare'', ''which is better'',
     ''tax-loss harvest'', ''backdoor roth'', ''asset location'']"

definition score_lexicon :: "string \<Rightarrow> string list \<Rightarrow> nat" where
  "score_lexicon text lexicon = length (filter (\<lambda>term. str_in term (lower text)) lexicon)"

text \<open>Python's \<open>round(x, n)\<close> on exact numbers: to the nearest multiple of \<open>10\<^sup>-\<^sup>n\<close>,
  a tie going to the even one.\<close>

definition round_half_even :: "real \<Rightarrow> int" where
  "round_half_even y =
     (let f = \<lfloor>y\<rfloor>; d = y - of_int f
      in if d < 1/2 then f else if 1/2 < d then f + 1 else if even f then f else f + 1)"

definition py_round :: "real \<Rightarrow> nat \<Rightarrow> real" where
  "py_round x n = of_int (round_half_even (x * 10 ^ n)) / 10 ^ n"

record sentiment_result =
  polarity :: string
  polarity_score :: real
  anxiety_level :: string
  urgency_level :: string
  confidence_level :: string
  response_style :: string
  analysis_method :: string

definition lexicon_polarity :: "string \<Rightarrow> string \<times> real" where
  "lexicon_polarity text =
     (let pos = score_lexicon text POSITIVE_LEXICON;
          neg = score_lexicon text NEGATIVE_LEXICON;
          total = (if pos + neg = 0 then 1 else pos + neg);
          score = (real pos - real neg) / real total
      in if score > 1/10 then (''positive'', py_round score 3)
         else if score < - (1/10) then (''negative'', py_round score 3)
         else (''neutral'', py_round score 3))"

definition map_finbert_label :: "string \<Rightarrow> real \<Rightarrow> string \<times> real" where
  "map_finbert_label label score =
     (let label_lower = lower label
      in if str_in ''positive'' label_lower then (''positive'', score)
         else if str_in ''negative'' label_lower then (''negative'', - score)
         else (''neutral'', 0))"

definition determine_response_style :: "string \<Rightarrow> string \<Rightarrow> string \<Rightarrow> string \<Rightarrow> string" where
  "determine_response_style polarity' anxiety urgency confidence =
     (if anxiety = ''high'' \<or> confidence = ''low'' then ''reassure_and_educate''
      else if urgency = ''high'' then ''urgent_action''
      else if polarity' = ''positive'' then ''encouraging''
      else if confidence = ''high'' then ''concise_expert''
      else ''balanced'')"

text \<open>
  The FinBERT pipeline is an external model. \<open>analyze\<close> takes it as a parameter: \<open>None\<close>
  when it could not be loaded, otherwise a function from the (truncated) text to the label
  and score of its first output, or to \<open>None\<close> when the inference raises, in which case the
  source falls back to the lexicon.
\<close>

type_synonym finbert = "(string \<Rightarrow> (string \<times> real) option) option"

definition level_of_hits :: "nat \<Rightarrow> string" where
  "level_of_hits hits = (if hits \<ge> 2 then ''high'' else if hits = 1 then ''medium'' else ''low'')"

definition analyze :: "finbert \<Rightarrow> string \<Rightarrow> sentiment_result" where
  "analyze pipeline text =
     (if strip text = [] then
        \<lparr>polarity = ''neutral'', polarity_score = 0, anxiety_level = ''low'',
         urgency_level = ''low'', confidence_level = ''high'', response_style = ''balanced'',
         analysis_method = ''lexicon''\<rparr>
      else
        let model_out = (case pipeline of None \<Rightarrow> None | Some run \<Rightarrow> run (slice_to 512 text));
            (pol, pol_score, meth) =
               (case model_out of
                  Some (label, score) \<Rightarrow>
                    (fst (map_finbert_label label score), snd (map_finbert_label label score),
                     ''finbert'')
                | None \<Rightarrow>
                    (fst (lexicon_polarity text), snd (lexicon_polarity text), ''lexicon''));
            anxiety_hits = score_lexicon text ANXIETY_LEXICON;
            anxiety = level_of_hits anxiety_hits;
            urgency_hits = score_lexicon text URGENCY_LEXICON;
            urgency = level_of_hits urgency_hits;
            low_conf_hits = score_lexicon text LOW_CONFIDENCE_LEXICON;
            high_conf_hits = score_lexicon text HIGH_CONFIDENCE_LEXICON;
            confidence = (if low_conf_hits > high_conf_hits then ''low'' else ''high'')
        in \<lparr>polarity = pol, polarity_score = pol_score, anxiety_level = anxiety,
            urgency_level = urgency, confidence_level = confidence,
            response_style = determine_response_style pol anxiety urgency confidence,
            analysis_method = meth\<rparr>)"


section \<open>Hallucination detector (hallucination\_detector.py)\<close>

text \<open>
  An entry of \<open>FACT_REGISTRY\<close>. A key that an entry does not have reads as the empty list,
  as \<open>fact.get(key, [])\<close> does. The free-text \<open>description\<close> is left out: it only
  appears in messages.
\<close>

record fact =
  fact_key :: string
  expected_rates :: "string list"
  wrong_rates :: "string list"
  expected_amounts :: "string list"
  wrong_amounts :: "string list"
  expected_limits :: "string list"
  trigger_phrases :: "string list"
  category :: string

definition mk_fact ::
  "string \<Rightarrow> string list \<Rightarrow> string list \<Rightarrow> string list \<Rightarrow> string list \<Rightarrow> string list
     \<Rightarrow> string list \<Rightarrow> string \<Rightarrow> fact" where
  "mk_fact k er wr ea wa el tp rx_cat =
     \<lparr>fact_key = k, expected_rates = er, wrong_rates = wr, expected_amounts = ea,
      wrong_amounts = wa, expected_limits = el, trigger_phrases = tp, category = rx_cat\<rparr>"

definition FACT_REGISTRY :: "fact list" where
  "FACT_REGISTRY =
   [mk_fact ''new_regime_slab_3l_5l'' [''5%''] [] [] [] []
      [''3 lakh to 7'', ''3-7 lakh'', ''3l to 7l'', ''5% slab''] ''regime'',
    mk_fact ''new_regime_slab_above_15l'' [''30%''] [] [] [] []
      [''above 15 lakh'', ''above '' @ rupee @ ''15'', ''above rs 15''] ''regime'',
    mk_fact ''87a_rebate_new_regime'' [] [] [''25000'', ''25,000''] []
      [''7 lakh'', rupee @ ''7''] [] ''regime'',
    mk_fact ''87a_rebate_old_regime'' [] [] [''12500'', ''12,500''] []
      [''5 lakh'', rupee @ ''5''] [] ''regime'',
    mk_fact ''stcg_111a_rate'' [''20%''] [''15%''] [] [] []
      [''stcg'', ''short term capital gain'', ''section 111a'', ''111a''] ''capital_gains'',
    mk_fact ''ltcg_112a_rate'' [''12.5%''] [''10%''] [] [] []
      [''ltcg'', ''long term capital gain'', ''section 112a'', ''112a''] ''capital_gains'',
    mk_fact ''ltcg_112a_exemption'' [] [] [''1.25 lakh'', ''1,25,000'', ''125000'']
      [''1 lakh'', ''100000'', ''1,00,000''] []
      [''ltcg exemption'', ''exempt ltcg'', ''112a exempt''] ''capital_gains'',
    mk_fact ''tds_194c_individual'' [''1%''] [] [] [] []
      [''194c'', ''contractor tds'', ''section 194c individual''] ''tds'',
    mk_fact ''tds_194c_company'' [''2%''] [] [] [] []
      [''194c company'', ''contractor tds company''] ''tds'',
    mk_fact ''tds_194ia'' [''1%''] [] [] [] [''50 lakh'', rupee @ ''50'']
      [''194ia'', ''property tds'', ''immovable property tds''] ''tds'',
    mk_fact ''tds_194j_professional'' [''10%''] [] [] [] []
      [''194j professional'', ''professional fee tds''] ''tds'',
    mk_fact ''tds_194j_technical'' [''2%''] [] [] [] []
      [''194j technical'', ''technical service tds''] ''tds'',
    mk_fact ''gst_gold'' [''3%''] [] [] [] []
      [''gold gst'', ''gst on gold'', ''gst jewellery''] ''gst'',
    mk_fact ''gst_making_charges'' [''5%''] [] [] [] []
      [''making charges gst'', ''gst making''] ''gst'',
    mk_fact ''gst_restaurant_ac'' [''5%''] [] [] [] []
      [''restaurant gst'', ''gst restaurant ac''] ''gst'',
    mk_fact ''epf_employee'' [''12%''] [] [] [] []
      [''epf employee'', ''pf employee'', ''provident fund contribution''] ''payroll'',
    mk_fact ''esic_employee'' [''0.75%''] [] [] [] []
      [''esic employee'', ''esi employee contribution''] ''payroll'',
    mk_fact ''esic_employer'' [''3.25%''] [] [] [] []
      [''esic employer'', ''esi employer contribution''] ''payroll'',
    mk_fact ''advance_tax_jun'' [''15%''] [] [] [] []
      [''june advance tax'', ''15 june installment'', ''advance tax june''] ''advance_tax'',
    mk_fact ''advance_tax_sep'' [''45%''] [] [] [] []
      [''september advance tax'', ''15 september'', ''advance tax sep''] ''advance_tax'',
    mk_fact ''advance_tax_dec'' [''75%''] [] [] [] []
      [''december advance tax'', ''15 december'', ''advance tax dec''] ''advance_tax'',
    mk_fact ''advance_tax_mar'' [''100%''] [] [] [] []
      [''march advance tax'', ''15 march'', ''advance tax march''] ''advance_tax'']"

datatype hallucination_type = WRONG_RATE | MISSING_FACT | OUTDATED_RATE | CONFLICTING | UNSUPPORTED

record hallucination_finding =
  finding_fact_key :: string
  finding_type :: hallucination_type
  found_in_text :: string
  expected :: string
  severity :: string

text \<open>\<open>sep.join(xs)\<close>.\<close>

fun join :: "string \<Rightarrow> string list \<Rightarrow> string" where
  "join sep [] = []"
| "join sep [x] = x"
| "join sep (x # y # ys) = x @ sep @ join sep (y # ys)"

definition rate_present :: "string \<Rightarrow> string \<Rightarrow> bool" where
  "rate_present text_lower rate =
     (let rate_norm = remove_all '' '' (lower rate);
          text_norm = remove_all '' '' text_lower
      in str_in rate_norm text_norm)"

definition amount_present :: "string \<Rightarrow> string \<Rightarrow> bool" where
  "amount_present text_lower amount =
     (let amount_norm = remove_all '' '' (remove_all rupee (remove_all '','' (lower amount)));
          text_norm = remove_all '' '' (remove_all rupee (remove_all '','' text_lower))
      in str_in amount_norm text_norm)"

definition check_fact :: "string \<Rightarrow> fact \<Rightarrow> hallucination_finding list" where
  "check_fact text_lower f =
     map (\<lambda>wrong_rate.
            \<lparr>finding_fact_key = fact_key f, finding_type = OUTDATED_RATE,
             found_in_text = wrong_rate, expected = join '', '' (expected_rates f),
             severity = ''high''\<rparr>)
         (filter (rate_present text_lower) (wrong_rates f))
     @
     map (\<lambda>wrong_amount.
            \<lparr>finding_fact_key = fact_key f, finding_type = OUTDATED_RATE,
             found_in_text = wrong_amount, expected = join '', '' (expected_amounts f),
             severity = ''critical''\<rparr>)
         (filter (amount_present text_lower) (wrong_amounts f))"

text \<open>The state of the loop of \<open>check\<close> over the registry.\<close>

record check_state =
  cs_findings :: "hallucination_finding list"
  cs_facts_checked :: nat
  cs_facts_passed :: nat
  cs_ca_review :: bool

definition any_trigger :: "string \<Rightarrow> fact \<Rightarrow> bool" where
  "any_trigger text_lower f = list_ex (\<lambda>tp. str_in tp text_lower) (trigger_phrases f)"

text \<open>Whether the loop body reaches \<open>facts_checked += 1\<close> for a fact: neither
  \<open>continue\<close> is taken. A category that is \<open>None\<close> or empty is falsy.\<close>

definition fact_applicable :: "string option \<Rightarrow> string \<Rightarrow> fact \<Rightarrow> bool" where
  "fact_applicable query_category text_lower f =
     (\<not> ((query_category \<noteq> None \<and> query_category \<noteq> Some []) \<and> category f \<noteq> []
          \<and> Some (category f) \<noteq> query_category \<and> \<not> any_trigger text_lower f)
      \<and> \<not> (trigger_phrases f \<noteq> [] \<and> \<not> any_trigger text_lower f))"

definition check_step :: "string option \<Rightarrow> string \<Rightarrow> check_state \<Rightarrow> fact \<Rightarrow> check_state" where
  "check_step query_category text_lower st f =
     (if \<not> fact_applicable query_category text_lower f then st
      else
        let fact_findings = check_fact text_lower f
        in if fact_findings \<noteq> [] then
             st\<lparr>cs_findings := cs_findings st @ fact_findings,
                cs_facts_checked := cs_facts_checked st + 1,
                cs_ca_review :=
                  (if list_ex (\<lambda>fd. severity fd = ''high'' \<or> severity fd = ''critical'')
                         fact_findings
                   then True else cs_ca_review st)\<rparr>
           else
             st\<lparr>cs_facts_checked := cs_facts_checked st + 1,
                cs_facts_passed := cs_facts_passed st + 1\<rparr>)"

fun check_loop :: "string option \<Rightarrow> string \<Rightarrow> check_state \<Rightarrow> fact list \<Rightarrow> check_state" where
  "check_loop query_category text_lower st [] = st"
| "check_loop query_category text_lower st (f # fs) =
     check_loop query_category text_lower (check_step query_category text_lower st f) fs"

text \<open>The result of \<open>check\<close>; the \<open>text\<close> and the \<open>explanation\<close> message are left out.\<close>

record hallucination_result =
  hr_category :: string
  is_hallucination :: bool
  hr_confidence :: real
  findings :: "hallucination_finding list"
  facts_checked :: nat
  facts_passed :: nat
  needs_ca_review :: bool

definition raw_confidence :: "check_state \<Rightarrow> real" where
  "raw_confidence st =
     (if cs_facts_checked st = 0 then 0
      else (real (cs_facts_checked st) - real (cs_facts_passed st)) / real (cs_facts_checked st))"

definition check_registry ::
  "fact list \<Rightarrow> real \<Rightarrow> string \<Rightarrow> string option \<Rightarrow> hallucination_result" where
  "check_registry registry threshold text query_category =
     (let text_lower = lower text;
          st = check_loop query_category text_lower
                 \<lparr>cs_findings = [], cs_facts_checked = 0, cs_facts_passed = 0,
                  cs_ca_review = False\<rparr> registry;
          confidence = raw_confidence st;
          is_hall = (confidence \<ge> threshold \<and> length (cs_findings st) > 0)
      in \<lparr>hr_category = (case query_category of None \<Rightarrow> ''general''
                          | Some c \<Rightarrow> if c = [] then ''general'' else c),
          is_hallucination = is_hall,
          hr_confidence = py_round confidence 4,
          findings = cs_findings st,
          facts_checked = cs_facts_checked st,
          facts_passed = cs_facts_passed st,
          needs_ca_review = cs_ca_review st\<rparr>)"

text \<open>\<open>HallucinationDetector(threshold).check(text, query_category)\<close>.\<close>

definition check :: "real \<Rightarrow> string \<Rightarrow> string option \<Rightarrow> hallucination_result" where
  "check threshold text query_category = check_registry FACT_REGISTRY threshold text query_category"

text \<open>The module's detector is built with the default threshold 0.3.\<close>

definition check_answer :: "string \<Rightarrow> string option \<Rightarrow> hallucination_result" where
  "check_answer answer_text query_category = check (3/10) answer_text query_category"


section \<open>Confidence scorer (confidence\_scorer.py)\<close>

subsection \<open>Regular expressions of the quality markers\<close>

text \<open>
  The patterns are compiled with \<open>re.IGNORECASE\<close> and used with \<open>search\<close>, which asks
  whether some substring is in the pattern's language. The matcher below decides that with
  derivatives. Character classes are the ASCII ones.
\<close>

datatype cclass = Lit char | Digit | Space | WordChar | OneOf "cclass list"

fun in_class :: "cclass \<Rightarrow> char \<Rightarrow> bool" where
  "in_class (Lit p) c = (lower_char c = lower_char p)"
| "in_class Digit c = List.member digits c"
| "in_class Space c = is_space c"
| "in_class WordChar c = List.member (digits @ upper_letters @ lower_letters @ ''_'') c"
| "in_class (OneOf cls) c = list_ex (\<lambda>k. in_class k c) cls"

datatype regex = Null | Eps | Sym cclass | Cat regex regex | Alt regex regex | Star regex

fun nullable :: "regex \<Rightarrow> bool" where
  "nullable Null = False"
| "nullable Eps = True"
| "nullable (Sym k) = False"
| "nullable (Cat r s) = (nullable r \<and> nullable s)"
| "nullable (Alt r s) = (nullable r \<or> nullable s)"
| "nullable (Star r) = True"

fun is_null :: "regex \<Rightarrow> bool" where
  "is_null Null = True"
| "is_null r = False"

fun is_eps :: "regex \<Rightarrow> bool" where
  "is_eps Eps = True"
| "is_eps r = False"

text \<open>Concatenation and alternative, with the dead branches pruned.\<close>

definition rx_cat :: "regex \<Rightarrow> regex \<Rightarrow> regex" where
  "rx_cat r s = (if is_null r \<or> is_null s then Null else if is_eps r then s else Cat r s)"

definition rx_alt :: "regex \<Rightarrow> regex \<Rightarrow> regex" where
  "rx_alt r s = (if is_null r then s else if is_null s then r else Alt r s)"

fun deriv :: "char \<Rightarrow> regex \<Rightarrow> regex" where
  "deriv c Null = Null"
| "deriv c Eps = Null"
| "deriv c (Sym k) = (if in_class k c then Eps else Null)"
| "deriv c (Cat r s) =
     (if nullable r then rx_alt (rx_cat (deriv c r) s) (deriv c s) else rx_cat (deriv c r) s)"
| "deriv c (Alt r s) = rx_alt (deriv c r) (deriv c s)"
| "deriv c (Star r) = rx_cat (deriv c r) (Star r)"

text \<open>Some prefix of the text is in the language.\<close>

fun matches_prefix :: "regex \<Rightarrow> string \<Rightarrow> bool" where
  "matches_prefix r [] = nullable r"
| "matches_prefix r (c # cs) =
     (if nullable r then True
      else if is_null r then False
      else matches_prefix (deriv c r) cs)"

fun search :: "regex \<Rightarrow> string \<Rightarrow> bool" where
  "search r [] = nullable r"
| "search r (c # cs) = (if matches_prefix r (c # cs) then True else search r cs)"

fun lit :: "string \<Rightarrow> regex" where
  "lit [] = Eps"
| "lit [c] = Sym (Lit c)"
| "lit (c # cs) = Cat (Sym (Lit c)) (lit cs)"

definition rx_plus :: "regex \<Rightarrow> regex" where
  "rx_plus r = Cat r (Star r)"

definition rx_opt :: "regex \<Rightarrow> regex" where
  "rx_opt r = Alt r Eps"

fun alts :: "regex list \<Rightarrow> regex" where
  "alts [] = Null"
| "alts [r] = r"
| "alts (r # rs) = Alt r (alts rs)"

fun cats :: "regex list \<Rightarrow> regex" where
  "cats [] = Eps"
| "cats [r] = r"
| "cats (r # rs) = Cat r (cats rs)"

definition QUALITY_MARKERS_positive :: "regex list" where
  "QUALITY_MARKERS_positive =
    [cats [lit ''section'', rx_plus (Sym Space), Sym Digit],
     cats [lit rupee, rx_plus (Sym (OneOf [Digit, Lit CHR '','', Lit CHR ''.'']))],
     cats [rx_plus (Sym Digit), rx_opt (cats [lit ''.'', rx_plus (Sym Digit)]), lit ''%''],
     cats [lit ''fy'', Star (Sym Space), lit ''20'', Sym Digit, Sym Digit],
     cats [lit ''form'', rx_plus (Sym Space), rx_plus (Sym Digit)],
     cats [lit ''schedule'', rx_plus (Sym Space), rx_plus (Sym WordChar)]]"

definition QUALITY_MARKERS_negative :: "regex list" where
  "QUALITY_MARKERS_negative =
    [cats [lit ''i don'', rx_opt (Sym (Lit (CHR 0x27))), lit ''t know''],
     cats [lit ''i'', rx_opt (Sym (Lit (CHR 0x27))), lit ''m not sure''],
     cats [lit ''cannot '', alts [lit ''provide'', lit ''give'', lit ''tell'']],
     cats [lit ''consult a '', alts [lit ''ca'', lit ''tax'', lit ''financial''], lit '' '',
           alts [lit ''professional'', lit ''advisor'', lit ''expert'']],
     cats [lit ''beyond my '', alts [lit ''knowledge'', lit ''scope'', lit ''expertise'']],
     cats [lit ''this is not '', alts [lit ''tax'', lit ''financial'', lit ''legal''],
           lit '' advice'']]"

subsection \<open>Configuration and data\<close>

definition ESCALATE_THRESHOLD :: real where "ESCALATE_THRESHOLD = 50/100"
definition DISCLAIMER_THRESHOLD :: real where "DISCLAIMER_THRESHOLD = 65/100"

definition COMPLEXITY_KEYWORDS_high :: "string list" where
  "COMPLEXITY_KEYWORDS_high =
    [''notice'', ''scrutiny'', ''penalty'', ''prosecution'', ''144'', ''148'', ''263'', ''271'',
     ''revised return'', ''rectification'', ''search and seizure'', ''appeal'',
     ''tribunal'', ''high court'', ''itat'', ''compounding'', ''prosecution'',
     ''foreign income'', ''dtaa'', ''form 15ca'', ''form 15cb'']"

definition COMPLEXITY_KEYWORDS_medium :: "string list" where
  "COMPLEXITY_KEYWORDS_medium =
    [''carry forward'', ''set off'', ''loss adjustment'', ''indexation'',
     ''splitting income'', ''huf'', ''clubbing'', ''deemed income'',
     ''perquisite'', ''gratuity limit'', ''vrs exemption'']"

record retrieval_signals =
  top_similarity_score :: real
  avg_similarity_score :: real
  num_chunks_retrieved :: int
  chunk_diversity :: real
  has_exact_match :: bool

record components =
  c_retrieval :: real
  c_intent :: real
  c_complexity_penalty :: real
  c_answer_quality :: real
  c_length_score :: real
  c_hallucination_penalty :: real

text \<open>The three disclaimer texts and the two reason messages are represented by tags; the
  reason keeps the number that the message formats.\<close>

datatype disclaimer = Flagged_for_review | Enhanced_disclaimer | Standard_disclaimer

datatype escalation_reason = Hallucination_detected real | Low_confidence_score real

record confidence_result =
  cr_answer :: string
  cr_query :: string
  cr_category :: string
  cr_confidence :: real
  cr_components :: components
  escalate_to_ca :: bool
  add_disclaimer :: bool
  disclaimer_text :: disclaimer
  cr_escalation_reason :: "escalation_reason option"
  cr_hallucination :: "hallucination_result option"

subsection \<open>CA review queue\<close>

text \<open>An item of the queue, without its id and timestamp.\<close>

record review_item =
  ri_query :: string
  ri_answer :: string
  ri_reason :: "escalation_reason option"
  ri_confidence :: real
  ri_status :: string

text \<open>\<open>deque(maxlen=500).appendleft\<close>: the newest item first; a full queue drops its last.\<close>

definition add_to_ca_queue ::
  "review_item list \<Rightarrow> string \<Rightarrow> string \<Rightarrow> escalation_reason option \<Rightarrow> real \<Rightarrow> review_item list" where
  "add_to_ca_queue queue query answer reason confidence =
     take 500 (\<lparr>ri_query = query, ri_answer = take 500 answer, ri_reason = reason,
                ri_confidence = confidence, ri_status = ''pending''\<rparr> # queue)"

subsection \<open>Sub-scorers\<close>

definition retrieval_score :: "retrieval_signals option \<Rightarrow> real" where
  "retrieval_score retrieval =
     (case retrieval of
        None \<Rightarrow> 5/10
      | Some r \<Rightarrow>
          min 1 (top_similarity_score r) * (40/100)
          + min 1 (avg_similarity_score r) * (30/100)
          + min 1 (chunk_diversity r) * (15/100)
          + min 1 (real_of_int (num_chunks_retrieved r) / 4) * (15/100))"

definition complexity_penalty :: "string \<Rightarrow> string \<Rightarrow> real" where
  "complexity_penalty query answer =
     (let combined = lower (query @ '' '' @ answer)
      in if list_ex (\<lambda>kw. str_in kw combined) COMPLEXITY_KEYWORDS_high then 4/10
         else if list_ex (\<lambda>kw. str_in kw combined) COMPLEXITY_KEYWORDS_medium then 65/100
         else 1)"

definition answer_quality_score :: "string \<Rightarrow> real" where
  "answer_quality_score answer =
     (let positive = length (filter (\<lambda>p. search p answer) QUALITY_MARKERS_positive);
          negative = length (filter (\<lambda>p. search p answer) QUALITY_MARKERS_negative);
          score = min 1 (real positive
                          / max 2 (real (length QUALITY_MARKERS_positive) * (4/10)));
          score' = score - min (5/10) (real negative * (15/100))
      in max 0 score')"

definition length_score :: "string \<Rightarrow> real" where
  "length_score answer =
     (let tokens = length (split answer)
      in if tokens < 20 then 2/10
         else if tokens < 50 then 6/10
         else if tokens < 500 then 1
         else 8/10)"

definition build_disclaimer :: "real \<Rightarrow> bool \<Rightarrow> hallucination_result option \<Rightarrow> disclaimer" where
  "build_disclaimer confidence escalate hall_result =
     (if escalate \<or> (case hall_result of None \<Rightarrow> False | Some h \<Rightarrow> is_hallucination h)
      then Flagged_for_review
      else if confidence < DISCLAIMER_THRESHOLD then Enhanced_disclaimer
      else Standard_disclaimer)"

subsection \<open>\<open>ConfidenceScorer.score\<close>\<close>

text \<open>
  \<open>hallucination_available\<close> is the module flag \<open>HALLUCINATION_AVAILABLE\<close>, set when the
  detector could be imported. The queue is the module's \<open>_ca_review_queue\<close>, passed in and
  returned. Numbers are exact; the timing field is left out.
\<close>

definition score ::
  "bool \<Rightarrow> review_item list \<Rightarrow> string \<Rightarrow> string \<Rightarrow> string \<Rightarrow> retrieval_signals option \<Rightarrow> real
     \<Rightarrow> confidence_result \<times> review_item list" where
  "score hallucination_available queue query answer category' retrieval intent_confidence =
     (let hall_result =
            (if hallucination_available then Some (check_answer answer (Some category'))
             else None);
          comps =
            \<lparr>c_retrieval = retrieval_score retrieval,
             c_intent = min 1 (max 0 intent_confidence),
             c_complexity_penalty = complexity_penalty query answer,
             c_answer_quality = answer_quality_score answer,
             c_length_score = length_score answer,
             c_hallucination_penalty =
               (case hall_result of
                  Some h \<Rightarrow> if is_hallucination h then - (4/10) else 0
                | None \<Rightarrow> 0)\<rparr>;
          base = (30/100) * c_retrieval comps + (20/100) * c_intent comps
                 + (25/100) * c_answer_quality comps + (10/100) * c_length_score comps
                 + (15/100) * c_complexity_penalty comps;
          confidence = max 0 (min 1 (base + c_hallucination_penalty comps));
          (escalate, reason) =
            (case hall_result of
               Some h \<Rightarrow>
                 if is_hallucination h then (True, Some (Hallucination_detected (hr_confidence h)))
                 else if confidence < ESCALATE_THRESHOLD
                 then (True, Some (Low_confidence_score confidence))
                 else (False, None)
             | None \<Rightarrow>
                 if confidence < ESCALATE_THRESHOLD
                 then (True, Some (Low_confidence_score confidence))
                 else (False, None));
          queue' = (if escalate then add_to_ca_queue queue query answer reason confidence
                    else queue)
      in (\<lparr>cr_answer = answer, cr_query = query, cr_category = category',
           cr_confidence = py_round confidence 4,
           cr_components =
             \<lparr>c_retrieval = py_round (c_retrieval comps) 4,
              c_intent = py_round (c_intent comps) 4,
              c_complexity_penalty = py_round (c_complexity_penalty comps) 4,
              c_answer_quality = py_round (c_answer_quality comps) 4,
              c_length_score = py_round (c_length_score comps) 4,
              c_hallucination_penalty = py_round (c_hallucination_penalty comps) 4\<rparr>,
           escalate_to_ca = escalate,
           add_disclaimer = (confidence < DISCLAIMER_THRESHOLD),
           disclaimer_text = build_disclaimer confidence escalate hall_result,
           cr_escalation_reason = reason,
           cr_hallucination = hall_result\<rparr>,
          queue'))"


section \<open>LinUCB strategy selector (rl\_recommender.py)\<close>

subsection \<open>float64\<close>

text \<open>
  The numbers of this module are Python floats and numpy \<open>float64\<close> values. A finite one
  is modelled by the real number it stands for. An arithmetic operation of float64 returns
  the float64 number nearest to the exact result, a tie going to the one whose last bit is
  even: that is \<open>fl64\<close> of the exact result. A float64 number has 53 significant bits, and
  its last bit is worth at least \<open>2\<^sup>-\<^sup>1\<^sup>0\<^sup>7\<^sup>4\<close>. A result of magnitude \<open>2\<^sup>1\<^sup>0\<^sup>2\<^sup>4\<close> or more is
  an infinity in float64; infinities and NaN are outside this model, and \<open>is_float64\<close>
  holds of the numbers that float64 has.
\<close>

fun bit_length :: "nat \<Rightarrow> nat" where
  "bit_length n = (if n = 0 then 0 else Suc (bit_length (n div 2)))"

declare bit_length.simps [simp del]

text \<open>The exponent \<open>e\<close> of a number \<open>x\<close> that is not zero: \<open>2\<^sup>e \<le> |x| < 2\<^sup>e\<^sup>+\<^sup>1\<close>.\<close>

definition binade :: "real \<Rightarrow> int" where
  "binade x =
     (if 1 \<le> \<bar>x\<bar> then int (bit_length (nat \<lfloor>\<bar>x\<bar>\<rfloor>)) - 1
      else - int (bit_length (nat (\<lceil>1 / \<bar>x\<bar>\<rceil> - 1))))"

text \<open>The worth of the last bit of the float64 numbers around \<open>x\<close>.\<close>

definition ulp :: "real \<Rightarrow> real" where
  "ulp x = 2 powi (max (binade x) (- 1022) - 52)"

definition fl64 :: "real \<Rightarrow> real" where
  "fl64 x = of_int (round_half_even (x / ulp x)) * ulp x"


text \<open>
  \<open>round(x, n)\<close> on a float: the decimal number with \<open>n\<close> places nearest to \<open>x\<close> (a tie
  going to the even one), and of that the nearest float64 number.
\<close>

definition float_round :: "real \<Rightarrow> nat \<Rightarrow> real" where
  "float_round x n = fl64 (py_round x n)"

subsection \<open>Vectors and matrices\<close>

text \<open>
  A numpy vector is a list of numbers, a matrix the list of its rows. The operations of
  this subsection and of the next are exact: they are the mathematics that the float64
  operations of the code approximate.
\<close>

type_synonym vec = "real list"
type_synonym mat = "real list list"

fun dot :: "vec \<Rightarrow> vec \<Rightarrow> real" where
  "dot [] ys = 0"
| "dot (x # xs) [] = 0"
| "dot (x # xs) (y # ys) = x * y + dot xs ys"

definition scale :: "real \<Rightarrow> vec \<Rightarrow> vec" where
  "scale k xs = map (\<lambda>x. k * x) xs"

fun vec_add :: "vec \<Rightarrow> vec \<Rightarrow> vec" where
  "vec_add (x # xs) (y # ys) = (x + y) # vec_add xs ys"
| "vec_add xs ys = []"

fun vec_sub :: "vec \<Rightarrow> vec \<Rightarrow> vec" where
  "vec_sub (x # xs) (y # ys) = (x - y) # vec_sub xs ys"
| "vec_sub xs ys = []"

definition mat_vec :: "mat \<Rightarrow> vec \<Rightarrow> vec" where
  "mat_vec M x = map (\<lambda>row. dot row x) M"

definition outer :: "vec \<Rightarrow> vec \<Rightarrow> mat" where
  "outer x y = map (\<lambda>a. scale a y) x"

fun mat_add :: "mat \<Rightarrow> mat \<Rightarrow> mat" where
  "mat_add (r # rs) (s # ss) = vec_add r s # mat_add rs ss"
| "mat_add rs ss = []"

definition unit_vec :: "nat \<Rightarrow> nat \<Rightarrow> vec" where
  "unit_vec n j = map (\<lambda>i. if i = j then 1 else 0) [0..<n]"

definition eye :: "nat \<Rightarrow> mat" where
  "eye n = map (unit_vec n) [0..<n]"

definition zeros :: "nat \<Rightarrow> vec" where
  "zeros n = replicate n 0"

definition column :: "nat \<Rightarrow> mat \<Rightarrow> vec" where
  "column j M = map (\<lambda>row. row ! j) M"

definition transpose_mat :: "nat \<Rightarrow> mat \<Rightarrow> mat" where
  "transpose_mat n M = map (\<lambda>i. column i M) [0..<n]"


subsection \<open>The exact solution of a linear system\<close>

text \<open>
  The solution of a system and the inverse of a matrix in exact arithmetic, by elimination
  on the equations \<open>(row, right-hand side)\<close>: a pivot equation with a non-zero leading
  coefficient is taken out, the leading unknown is eliminated from the others, the smaller
  system is solved, and the leading unknown follows by substitution. \<open>None\<close> says that the
  matrix is singular.
\<close>

type_synonym eqn = "vec \<times> real"





fun those_vecs :: "vec option list \<Rightarrow> vec list option" where
  "those_vecs [] = Some []"
| "those_vecs (None # xs) = None"
| "those_vecs (Some v # xs) = (case those_vecs xs of None \<Rightarrow> None | Some vs \<Rightarrow> Some (v # vs))"


subsection \<open>numpy\<close>

datatype py_error = LinAlgError | ValueError | IndexError | KeyError | OverflowError | OSError

text \<open>
  \<open>numpy.linalg.solve\<close>, \<open>numpy.linalg.inv\<close> and the products \<open>@\<close> of a vector with a
  vector and with a matrix are computed by LAPACK and BLAS, outside the repository. The
  order of their additions, and with it the last bit of a result, depends on the build, so
  they are parameters of the model: \<open>select_action\<close> is modelled for whatever they return.
\<close>

record numpy =
  np_solve :: "mat \<Rightarrow> vec \<Rightarrow> py_error + vec"
  np_inv :: "mat \<Rightarrow> py_error + mat"
  np_dot :: "vec \<Rightarrow> vec \<Rightarrow> real"
  np_vecmat :: "vec \<Rightarrow> mat \<Rightarrow> vec"

text \<open>
  A reference for these functions on float64, in which every operation is rounded: the
  products are summed from left to right; a system is solved as LAPACK's \<open>gesv\<close> does it,
  by elimination with partial pivoting (the pivot is the row with the largest leading
  coefficient in absolute value, the first of them, and is swapped to the top; a pivot of
  zero is \<open>LinAlgError\<close>) and back substitution from the last unknown; the inverse is the
  solution for the identity on the right-hand side. Where an intermediate result is not a
  float64 number, a build that associates the sums in another order may differ from the
  reference in the last bit. The closed statements below use it on inputs where every
  intermediate result is a float64 number, or where no arithmetic is reached.
\<close>

definition fl_dot :: "vec \<Rightarrow> vec \<Rightarrow> real" where
  "fl_dot xs ys = foldl (\<lambda>acc (a, b). fl64 (acc + fl64 (a * b))) 0 (zip xs ys)"

definition fl_vecmat :: "vec \<Rightarrow> mat \<Rightarrow> vec" where
  "fl_vecmat x M = map (\<lambda>j. fl_dot x (column j M)) [0..<length x]"

fun pivot_from :: "nat \<Rightarrow> real \<Rightarrow> nat \<Rightarrow> eqn list \<Rightarrow> nat" where
  "pivot_from best best_val i [] = best"
| "pivot_from best best_val i (e # es) =
     (if best_val < \<bar>hd (fst e)\<bar> then pivot_from i \<bar>hd (fst e)\<bar> (Suc i) es
      else pivot_from best best_val (Suc i) es)"

definition fl_eliminate :: "eqn \<Rightarrow> eqn \<Rightarrow> eqn" where
  "fl_eliminate p e =
     (let f = fl64 (hd (fst e) / hd (fst p))
      in (map2 (\<lambda>a b. fl64 (a - fl64 (f * b))) (tl (fst e)) (tl (fst p)),
          fl64 (snd e - fl64 (f * snd p))))"

definition back_substitute :: "eqn \<Rightarrow> vec \<Rightarrow> real" where
  "back_substitute p ys =
     fl64 (foldl (\<lambda>acc (u, y). fl64 (acc - fl64 (u * y))) (snd p) (rev (zip (tl (fst p)) ys))
           / hd (fst p))"

fun lu_solve :: "nat \<Rightarrow> eqn list \<Rightarrow> vec option" where
  "lu_solve 0 eqs = Some []"
| "lu_solve (Suc n) [] = None"
| "lu_solve (Suc n) (e # es) =
     (let k = pivot_from 0 \<bar>hd (fst e)\<bar> 1 es;
          p = (e # es) ! k;
          rest = tl ((e # es)[k := e])
      in if hd (fst p) = 0 then None
         else (case lu_solve n (map (fl_eliminate p) rest) of
                 None \<Rightarrow> None
               | Some ys \<Rightarrow> Some (back_substitute p ys # ys)))"

definition numpy64 :: numpy where
  "numpy64 =
     \<lparr>np_solve = (\<lambda>A b. case lu_solve (length A) (zip A b) of
                           None \<Rightarrow> Inl LinAlgError
                         | Some u \<Rightarrow> Inr u),
      np_inv = (\<lambda>A. case those_vecs
                            (map (\<lambda>j. lu_solve (length A) (zip A (unit_vec (length A) j)))
                               [0..<length A]) of
                       None \<Rightarrow> Inl LinAlgError
                     | Some cols \<Rightarrow> Inr (transpose_mat (length A) cols)),
      np_dot = fl_dot,
      np_vecmat = fl_vecmat\<rparr>"

subsection \<open>Configuration and context vector\<close>

definition ACTIONS :: "string list" where
  "ACTIONS = [''retrieval_only'', ''intent_boosted'', ''sentiment_adapted'',
              ''entity_focused'', ''full_pipeline'']"

definition N_ACTIONS :: nat where "N_ACTIONS = length ACTIONS"

definition CONTEXT_DIM :: nat where "CONTEXT_DIM = 11"

text \<open>The default of \<open>RL_ALPHA\<close>.\<close>

definition ALPHA :: real where "ALPHA = 5/10"

definition level_val :: "string \<Rightarrow> real" where
  "level_val l = (if l = ''high'' then 1 else if l = ''medium'' then 5/10 else 0)"

definition build_context_vector ::
  "string \<Rightarrow> string \<Rightarrow> string \<Rightarrow> string \<Rightarrow> string \<Rightarrow> int \<Rightarrow> real \<Rightarrow> vec" where
  "build_context_vector intent anxiety urgency confidence polarity' exchange_count avg_feedback =
     (let intent_idx = (if intent = ''budget'' then 0 else if intent = ''investment'' then 1
                        else if intent = ''tax'' then 2 else if intent = ''savings'' then 3
                        else (0::nat));
          intent_vec = unit_vec 4 intent_idx;
          anxiety_val = level_val anxiety;
          urgency_val = level_val urgency;
          conf_val = (if confidence = ''high'' then 1 else 0);
          polarity_val = (if polarity' = ''positive'' then 1
                          else if polarity' = ''neutral'' then 5/10
                          else if polarity' = ''negative'' then 0 else 5/10);
          session_len = min (fl64 (real_of_int exchange_count / 10)) 1;
          avg_fb_norm = fl64 (fl64 (avg_feedback + 1) / 2)
      in intent_vec @ [anxiety_val, urgency_val, conf_val, polarity_val]
           @ [session_len, avg_fb_norm, 1])"

subsection \<open>The bandit\<close>

record action_stats =
  arm_A :: mat
  arm_b :: vec

definition new_action_stats :: action_stats where
  "new_action_stats = \<lparr>arm_A = eye CONTEXT_DIM, arm_b = zeros CONTEXT_DIM\<rparr>"

definition theta :: "numpy \<Rightarrow> action_stats \<Rightarrow> py_error + vec" where
  "theta np st = np_solve np (arm_A st) (arm_b st)"

record bandit =
  alpha :: real
  stats :: "action_stats list"
  total_selections :: "int list"

text \<open>A bandit that finds no weights file.\<close>

definition new_bandit :: "real \<Rightarrow> bandit" where
  "new_bandit a = \<lparr>alpha = a, stats = replicate N_ACTIONS new_action_stats,
                   total_selections = replicate N_ACTIONS 0\<rparr>"

text \<open>
  The body of the loop of \<open>select_action\<close> for one arm, up to the sum
  \<open>mean + uncertainty\<close>. The product of vectors of different lengths and the square root
  of a negative number raise \<open>ValueError\<close>; \<open>math.sqrt\<close> is correctly rounded.
\<close>

definition ucb_sum :: "numpy \<Rightarrow> real \<Rightarrow> action_stats \<Rightarrow> vec \<Rightarrow> py_error + real" where
  "ucb_sum np a st context =
     (case theta np st of
        Inl e \<Rightarrow> Inl e
      | Inr th \<Rightarrow>
          if length th \<noteq> length context then Inl ValueError
          else
            let mean = np_dot np th context
            in (case np_inv np (arm_A st) of
                  Inl e \<Rightarrow> Inl e
                | Inr A_inv \<Rightarrow>
                    let q = np_dot np (np_vecmat np context A_inv) context
                    in if q < 0 then Inl ValueError
                       else Inr (fl64 (mean + fl64 (a * fl64 (sqrt q))))))"

text \<open>The score that is stored for the arm: the sum, rounded to four places.\<close>

definition ucb_score :: "numpy \<Rightarrow> real \<Rightarrow> action_stats \<Rightarrow> vec \<Rightarrow> py_error + real" where
  "ucb_score np a st context =
     (case ucb_sum np a st context of Inl e \<Rightarrow> Inl e | Inr s \<Rightarrow> Inr (float_round s 4))"

fun ucb_scores_loop ::
  "numpy \<Rightarrow> real \<Rightarrow> action_stats list \<Rightarrow> vec \<Rightarrow> py_error + real list" where
  "ucb_scores_loop np a [] context = Inr []"
| "ucb_scores_loop np a (st # sts) context =
     (case ucb_score np a st context of
        Inl e \<Rightarrow> Inl e
      | Inr s \<Rightarrow> (case ucb_scores_loop np a sts context of
                    Inl e \<Rightarrow> Inl e
                  | Inr ss \<Rightarrow> Inr (s # ss)))"

text \<open>\<open>max(range(n), key=...)\<close>: the running best is replaced only by a strictly larger
  score, so the first of the largest wins.\<close>

fun argmax_from :: "nat \<Rightarrow> real \<Rightarrow> nat \<Rightarrow> real list \<Rightarrow> nat" where
  "argmax_from best best_val i [] = best"
| "argmax_from best best_val i (s # ss) =
     (if best_val < s then argmax_from i s (Suc i) ss
      else argmax_from best best_val (Suc i) ss)"

definition argmax_first :: "real list \<Rightarrow> nat" where
  "argmax_first ss = (case ss of [] \<Rightarrow> 0 | s # rest \<Rightarrow> argmax_from 0 s 1 rest)"

text \<open>
  \<open>select_action\<close> returns the index, the name, the scores by action name (in the order
  of the arms) and the bandit with its selection counter advanced. A bandit whose number of
  arms or of counters is not \<open>N_ACTIONS\<close> fails at \<open>ACTIONS[i]\<close>, at the lookup of a
  missing score or at the counter.
\<close>

definition select_action ::
  "numpy \<Rightarrow> bandit \<Rightarrow> vec \<Rightarrow> py_error + (nat \<times> string \<times> (string \<times> real) list \<times> bandit)" where
  "select_action np bd context =
     (case ucb_scores_loop np (alpha bd) (take N_ACTIONS (stats bd)) context of
        Inl e \<Rightarrow> Inl e
      | Inr ss \<Rightarrow>
          if length (stats bd) > N_ACTIONS then Inl IndexError
          else if length (stats bd) < N_ACTIONS then Inl KeyError
          else
            let best_idx = argmax_first ss
            in if length (total_selections bd) \<le> best_idx then Inl IndexError
               else Inr (best_idx, ACTIONS ! best_idx, zip ACTIONS ss,
                         bd\<lparr>total_selections :=
                              (total_selections bd)
                                [best_idx := total_selections bd ! best_idx + 1]\<rparr>))"

text \<open>
  \<open>update\<close>. The index follows Python: a negative one counts from the end. The in-place
  additions broadcast a context of length one and raise \<open>ValueError\<close> for any other length
  that is not the arm's dimension.
\<close>

definition broadcast_context :: "nat \<Rightarrow> vec \<Rightarrow> vec option" where
  "broadcast_context n context =
     (if length context = n then Some context
      else if length context = 1 then Some (replicate n (hd context))
      else None)"

text \<open>
  The two in-place additions on the arm's matrices. They work entry by entry:
  \<open>numpy.outer\<close> rounds every product, \<open>reward * context\<close> too, and each \<open>+=\<close> rounds every
  sum.
\<close>

definition update_stats :: "action_stats \<Rightarrow> vec \<Rightarrow> real \<Rightarrow> action_stats" where
  "update_stats st x reward =
     \<lparr>arm_A = map (map fl64) (mat_add (arm_A st) (map (map fl64) (outer x x))),
      arm_b = map fl64 (vec_add (arm_b st) (map fl64 (scale reward x)))\<rparr>"

definition update :: "bandit \<Rightarrow> int \<Rightarrow> vec \<Rightarrow> real \<Rightarrow> py_error + bandit" where
  "update bd action_idx context reward =
     (let n = int (length (stats bd));
          j = (if action_idx < 0 then action_idx + n else action_idx)
      in if j < 0 \<or> n \<le> j then Inl IndexError
         else
           let st = stats bd ! nat j
           in (case broadcast_context (length (arm_b st)) context of
                 None \<Rightarrow> Inl ValueError
               | Some x \<Rightarrow>
                   Inr (bd\<lparr>stats := (stats bd)[nat j := update_stats st x reward]\<rparr>)))"

text \<open>A sequence of calls of \<open>update\<close>, each with its arm, context and reward; a call that
  raises leaves the bandit as it was.\<close>

fun update_all :: "bandit \<Rightarrow> (int \<times> vec \<times> real) list \<Rightarrow> bandit" where
  "update_all bd [] = bd"
| "update_all bd ((action_idx, context, reward) # calls) =
     (case update bd action_idx context reward of
        Inl e \<Rightarrow> update_all bd calls
      | Inr bd' \<Rightarrow> update_all bd' calls)"

text \<open>The mean estimate of an arm on a context as \<open>select_action\<close> computes it,
  \<open>float(theta @ context)\<close>.\<close>

definition mean_estimate :: "numpy \<Rightarrow> action_stats \<Rightarrow> vec \<Rightarrow> py_error + real" where
  "mean_estimate np st x =
     (case theta np st of
        Inl e \<Rightarrow> Inl e
      | Inr th \<Rightarrow> if length th \<noteq> length x then Inl ValueError else Inr (np_dot np th x))"

subsection \<open>The arithmetic of the claims\<close>





text \<open>The arm and the broadcast context that a call of \<open>update\<close> works on; \<open>None\<close> for a
  call that raises.\<close>

definition update_target :: "bandit \<Rightarrow> int \<Rightarrow> vec \<Rightarrow> (action_stats \<times> vec) option" where
  "update_target bd action_idx context =
     (let n = int (length (stats bd));
          j = (if action_idx < 0 then action_idx + n else action_idx)
      in if j < 0 \<or> n \<le> j then None
         else
           let st = stats bd ! nat j
           in map_option (\<lambda>x. (st, x)) (broadcast_context (length (arm_b st)) context))"



subsection \<open>Shapes and positive definiteness\<close>

definition wf_mat :: "nat \<Rightarrow> mat \<Rightarrow> bool" where
  "wf_mat n M \<longleftrightarrow> length M = n \<and> list_all (\<lambda>row. length row = n) M"

definition symmetric_mat :: "mat \<Rightarrow> bool" where
  "symmetric_mat M \<longleftrightarrow> (\<forall>i < length M. \<forall>j < length M. M ! i ! j = M ! j ! i)"

definition quad_form :: "mat \<Rightarrow> vec \<Rightarrow> real" where
  "quad_form M v = dot v (mat_vec M v)"

definition pos_def :: "nat \<Rightarrow> mat \<Rightarrow> bool" where
  "pos_def n M \<longleftrightarrow>
     wf_mat n M \<and> symmetric_mat M \<and> (\<forall>v. length v = n \<and> v \<noteq> zeros n \<longrightarrow> 0 < quad_form M v)"



text \<open>A context as \<open>build_context_vector\<close> builds it, seen from its shape only.\<close>

definition well_formed_context :: "vec \<Rightarrow> bool" where
  "well_formed_context x \<longleftrightarrow> length x = CONTEXT_DIM"

subsection \<open>Session state and the public functions\<close>

record session_rl_state =
  srs_session_id :: string
  exchange_count :: int
  feedback_sum :: real
  feedback_count :: int
  last_action_idx :: "int option"
  last_context :: "vec option"

definition avg_feedback :: "session_rl_state \<Rightarrow> real" where
  "avg_feedback s =
     (if feedback_count s \<noteq> 0 then fl64 (feedback_sum s / real_of_int (feedback_count s))
      else 0)"

definition new_session_rl_state :: "string \<Rightarrow> session_rl_state" where
  "new_session_rl_state sid =
     \<lparr>srs_session_id = sid, exchange_count = 0, feedback_sum = 0, feedback_count = 0,
      last_action_idx = None, last_context = None\<rparr>"

text \<open>The module's globals \<open>_session_rl_states\<close> and \<open>_bandit\<close>.\<close>

record rl_globals =
  session_rl_states :: "string \<rightharpoonup> session_rl_state"
  the_bandit :: bandit

text \<open>\<open>get_session_rl_state\<close> creates the entry of an unknown session.\<close>

definition get_session_rl_state :: "rl_globals \<Rightarrow> string \<Rightarrow> session_rl_state \<times> rl_globals" where
  "get_session_rl_state g sid =
     (case session_rl_states g sid of
        Some s \<Rightarrow> (s, g)
      | None \<Rightarrow> (new_session_rl_state sid,
                 g\<lparr>session_rl_states := (session_rl_states g)(sid \<mapsto> new_session_rl_state sid)\<rparr>))"

record strategy_result =
  sr_action :: string
  sr_action_idx :: nat
  sr_ucb_scores :: "(string \<times> real) list"
  sr_context_vector :: vec

text \<open>\<open>select_strategy\<close>: the exchange count is advanced before the selection, which may
  raise; the selection is stored only when it returned.\<close>

definition select_strategy ::
  "numpy \<Rightarrow> rl_globals \<Rightarrow> string \<Rightarrow> string \<Rightarrow> string \<Rightarrow> string \<Rightarrow> string \<Rightarrow> string
     \<Rightarrow> (py_error + strategy_result) \<times> rl_globals" where
  "select_strategy np g sid intent anxiety urgency confidence polarity' =
     (let (s0, g0) = get_session_rl_state g sid;
          s1 = s0\<lparr>exchange_count := exchange_count s0 + 1\<rparr>;
          context = build_context_vector intent anxiety urgency confidence polarity'
                      (exchange_count s1) (avg_feedback s1)
      in case select_action np (the_bandit g0) context of
           Inl e \<Rightarrow> (Inl e, g0\<lparr>session_rl_states := (session_rl_states g0)(sid \<mapsto> s1)\<rparr>)
         | Inr (action_idx, action_name, scores, bd') \<Rightarrow>
             (Inr \<lparr>sr_action = action_name, sr_action_idx = action_idx,
                   sr_ucb_scores = scores, sr_context_vector = context\<rparr>,
              g0\<lparr>session_rl_states :=
                    (session_rl_states g0)
                      (sid \<mapsto> s1\<lparr>last_action_idx := Some (int action_idx),
                                 last_context := Some context\<rparr>),
                  the_bandit := bd'\<rparr>))"

text \<open>\<open>record_feedback\<close>: the session's sums are advanced before the bandit is updated,
  so they stay advanced when the update raises.\<close>

definition record_feedback :: "rl_globals \<Rightarrow> string \<Rightarrow> string \<Rightarrow> py_error option \<times> rl_globals" where
  "record_feedback g sid rating =
     (let (s, g0) = get_session_rl_state g sid
      in case (last_action_idx s, last_context s) of
           (Some action_idx, Some context) \<Rightarrow>
             let reward = (if rating = ''up'' then 1 else - 1);
                 s1 = s\<lparr>feedback_sum := feedback_sum s + reward,
                        feedback_count := feedback_count s + 1\<rparr>;
                 g1 = g0\<lparr>session_rl_states := (session_rl_states g0)(sid \<mapsto> s1)\<rparr>
             in (case update (the_bandit g1) action_idx context reward of
                   Inl e \<Rightarrow> (Some e, g1)
                 | Inr bd' \<Rightarrow> (None, g1\<lparr>the_bandit := bd'\<rparr>))
         | _ \<Rightarrow> (None, g0))"

subsection \<open>A bandit with two scores that round to the same number\<close>

text \<open>
  Every arm of a new bandit has been updated three times on the context
  that has the bias term only, the first time with the reward \<open>0\<close> for the first arm,
  \<open>2\<^sup>-\<^sup>1\<^sup>3\<close> for the second and \<open>- 1\<close> for the others, then twice with the reward \<open>0\<close>.
  These are the calls, and the arm that they leave: the identity with \<open>4\<close> at the last
  place of the diagonal, and the sum of the rewards at the last place of the vector.
\<close>

definition tie_calls :: "(int \<times> vec \<times> real) list" where
  "tie_calls =
     concat (map (\<lambda>(i, r). [(i, [0, 0, 0, 0, 0, 0, 0, 0, 0, 0, 1], r),
                              (i, [0, 0, 0, 0, 0, 0, 0, 0, 0, 0, 1], 0),
                              (i, [0, 0, 0, 0, 0, 0, 0, 0, 0, 0, 1], 0)])
               [(0, 0), (1, 1/8192), (2, - 1), (3, - 1), (4, - 1)])"

definition tie_arm :: "real \<Rightarrow> action_stats" where
  "tie_arm r =
     \<lparr>arm_A =
        [[1, 0, 0, 0, 0, 0, 0, 0, 0, 0, 0],
         [0, 1, 0, 0, 0, 0, 0, 0, 0, 0, 0],
         [0, 0, 1, 0, 0, 0, 0, 0, 0, 0, 0],
         [0, 0, 0, 1, 0, 0, 0, 0, 0, 0, 0],
         [0, 0, 0, 0, 1, 0, 0, 0, 0, 0, 0],
         [0, 0, 0, 0, 0, 1, 0, 0, 0, 0, 0],
         [0, 0, 0, 0, 0, 0, 1, 0, 0, 0, 0],
         [0, 0, 0, 0, 0, 0, 0, 1, 0, 0, 0],
         [0, 0, 0, 0, 0, 0, 0, 0, 1, 0, 0],
         [0, 0, 0, 0, 0, 0, 0, 0, 0, 1, 0],
         [0, 0, 0, 0, 0, 0, 0, 0, 0, 0, 4]],
      arm_b = [0, 0, 0, 0, 0, 0, 0, 0, 0, 0, r]\<rparr>"


section \<open>Weekly RLHF run (rlhf\_pipeline.py)\<close>

definition GAMMA :: real where "GAMMA = 9/10"

datatype signal_type = THUMBS_UP | THUMBS_DOWN | CA_APPROVED | CA_REJECTED | CA_CORRECTED

fun signal_value :: "signal_type \<Rightarrow> string" where
  "signal_value THUMBS_UP = ''thumbs_up''"
| "signal_value THUMBS_DOWN = ''thumbs_down''"
| "signal_value CA_APPROVED = ''ca_approved''"
| "signal_value CA_REJECTED = ''ca_rejected''"
| "signal_value CA_CORRECTED = ''ca_corrected''"

fun REWARD_MAP :: "signal_type \<Rightarrow> real" where
  "REWARD_MAP THUMBS_UP = 1"
| "REWARD_MAP THUMBS_DOWN = - (5/10)"
| "REWARD_MAP CA_APPROVED = 15/10"
| "REWARD_MAP CA_REJECTED = - 1"
| "REWARD_MAP CA_CORRECTED = 15/10"

record feedback_record =
  fr_id :: string
  fr_ts :: real
  fr_session_id :: string
  fr_query :: string
  fr_answer :: string
  fr_action :: string
  fr_intent :: string
  fr_signal :: signal_type
  fr_reward :: real

record arm_stats =
  as_arm :: string
  n_samples :: int
  total_reward :: real
  avg_reward :: real
  as_A :: mat
  as_b :: vec

record pref_entry =
  query_hash :: string
  positive :: int
  negative :: int
  last_updated :: real

text \<open>JSON values, for the reports.\<close>

datatype json = JNull | JInt int | JNum real | JStr string | JArr "json list"
  | JObj "(string \<times> json) list"

text \<open>
  The state of the pipeline: the lines of the feedback file (\<open>None\<close> for a line that does
  not parse into a record, which \<open>load_since\<close> skips), the arms of the updater in the order
  of its dictionary, the retrieval preferences, the time of the last run and the reports
  written. Times are numbers; the formatted time strings of the source are represented by
  the time they format.
\<close>

record rlhf_state =
  feedback_file :: "feedback_record option list"
  linucb_arms :: "(string \<times> arm_stats) list"
  retrieval_prefs :: "string \<rightharpoonup> pref_entry"
  last_run :: real
  reports :: "(int \<times> (string \<times> json) list) list"

definition load_since :: "feedback_record option list \<Rightarrow> real \<Rightarrow> feedback_record list" where
  "load_since file since_ts =
     concat (map (\<lambda>line. case line of
                           None \<Rightarrow> []
                         | Some d \<Rightarrow> if fr_ts d \<ge> since_ts then [d] else []) file)"

definition reward_compute :: "feedback_record \<Rightarrow> real \<Rightarrow> real" where
  "reward_compute record' now =
     (let base = fr_reward record';
          age_s = max 0 (now - fr_ts record');
          age_w = max 1 (age_s / (7 * 24 * 3600));
          discount = GAMMA powr (age_w - 1)
      in base * discount)"

text \<open>The first loop of \<open>LinUCBUpdater.update\<close>: per known arm, in the order of first
  occurrence, the number of records and the sum of their rewards.\<close>

fun bump_update :: "string \<Rightarrow> real \<Rightarrow> (string \<times> int \<times> real) list \<Rightarrow> (string \<times> int \<times> real) list" where
  "bump_update name r [] = [(name, 1, r)]"
| "bump_update name r ((k, n, sm) # us) =
     (if k = name then (k, n + 1, sm + r) # us else (k, n, sm) # bump_update name r us)"

fun collect_updates ::
  "(string \<times> arm_stats) list \<Rightarrow> real \<Rightarrow> (string \<times> int \<times> real) list \<Rightarrow> feedback_record list
     \<Rightarrow> (string \<times> int \<times> real) list" where
  "collect_updates arms now us [] = us"
| "collect_updates arms now us (rec # recs) =
     (if map_of arms (fr_action rec) = None then collect_updates arms now us recs
      else collect_updates arms now (bump_update (fr_action rec) (reward_compute rec now) us) recs)"

fun set_arm :: "string \<Rightarrow> arm_stats \<Rightarrow> (string \<times> arm_stats) list \<Rightarrow> (string \<times> arm_stats) list" where
  "set_arm name v [] = [(name, v)]"
| "set_arm name v ((k, w) # rest) =
     (if k = name then (k, v) # rest else (k, w) # set_arm name v rest)"

text \<open>The second loop: the arms' running sums, and the change record of each.\<close>

fun apply_updates ::
  "(string \<times> arm_stats) list \<Rightarrow> (string \<times> json) list \<Rightarrow> (string \<times> int \<times> real) list
     \<Rightarrow> (string \<times> arm_stats) list \<times> (string \<times> json) list" where
  "apply_updates arms changes [] = (arms, changes)"
| "apply_updates arms changes ((arm_name, n, reward_sum) # us) =
     (case map_of arms arm_name of
        None \<Rightarrow> apply_updates arms changes us
      | Some arm \<Rightarrow>
          let old_avg = avg_reward arm;
              n' = n_samples arm + n;
              total' = total_reward arm + reward_sum;
              avg' = total' / real_of_int (max 1 n');
              arm' = arm\<lparr>n_samples := n', total_reward := total', avg_reward := avg'\<rparr>
          in apply_updates (set_arm arm_name arm' arms)
               (changes @ [(arm_name,
                  JObj [(''n_new'', JInt n), (''avg_before'', JNum (py_round old_avg 4)),
                        (''avg_after'', JNum (py_round avg' 4)),
                        (''delta'', JNum (py_round (avg' - old_avg) 4))])])
               us)"

definition linucb_update ::
  "(string \<times> arm_stats) list \<Rightarrow> feedback_record list \<Rightarrow> real
     \<Rightarrow> (string \<times> arm_stats) list \<times> (string \<times> json) list" where
  "linucb_update arms records now = apply_updates arms [] (collect_updates arms now [] records)"

definition get_rankings :: "(string \<times> arm_stats) list \<Rightarrow> json list" where
  "get_rankings arms =
     map (\<lambda>(k, v). JObj [(''arm'', JStr k), (''avg_reward'', JNum (py_round (avg_reward v) 4)),
                         (''n_samples'', JInt (n_samples v))])
         (sort_key (\<lambda>(k, v). - py_round (avg_reward v) 4) arms)"

text \<open>\<open>RetrievalFeedback.update\<close>; \<open>md5\<close> stands for the hex digest of the encoded text.\<close>

fun retrieval_update ::
  "(string \<Rightarrow> string) \<Rightarrow> real \<Rightarrow> (string \<rightharpoonup> pref_entry) \<Rightarrow> feedback_record list
     \<Rightarrow> (string \<rightharpoonup> pref_entry)" where
  "retrieval_update md5 now prefs [] = prefs"
| "retrieval_update md5 now prefs (rec # recs) =
     (let key = md5 (lower (fr_query rec));
          entry = (case prefs key of
                     Some e \<Rightarrow> e
                   | None \<Rightarrow> \<lparr>query_hash = key, positive = 0, negative = 0, last_updated = now\<rparr>);
          entry' = (if fr_reward rec > 0 then entry\<lparr>positive := positive entry + 1\<rparr>
                    else entry\<lparr>negative := negative entry + 1\<rparr>)
      in retrieval_update md5 now (prefs(key \<mapsto> entry'\<lparr>last_updated := now\<rparr>)) recs)"

fun bump_count :: "string \<Rightarrow> (string \<times> int) list \<Rightarrow> (string \<times> int) list" where
  "bump_count k [] = [(k, 1)]"
| "bump_count k ((k', n) # rest) =
     (if k' = k then (k', n + 1) # rest else (k', n) # bump_count k rest)"

fun append_reward :: "string \<Rightarrow> real \<Rightarrow> (string \<times> real list) list \<Rightarrow> (string \<times> real list) list" where
  "append_reward k r [] = [(k, [r])]"
| "append_reward k r ((k', rs) # rest) =
     (if k' = k then (k', rs @ [r]) # rest else (k', rs) # append_reward k r rest)"

definition mean :: "real list \<Rightarrow> real" where
  "mean xs = sum_list xs / real (length xs)"

text \<open>
  A number that a caller passes as a time: a finite one, or one of the three other values of
  a Python \<open>float\<close>.
\<close>

datatype float_arg = Finite real | NaN | PlusInf | MinusInf

text \<open>
  \<open>time.gmtime(t)\<close>, as far as \<open>run\<close> depends on it: it returns for the time stamps that
  the platform can convert, and raises for the others. CPython refuses a NaN with
  \<open>ValueError\<close> and an infinity with \<open>OverflowError\<close>; a finite time is floored to whole
  seconds and handed to the platform, whose answer is the parameter \<open>platform\<close>: the error
  it raises for that second, if any. The result is the finite time that was accepted.
\<close>

definition gmtime :: "(int \<Rightarrow> py_error option) \<Rightarrow> float_arg \<Rightarrow> py_error + real" where
  "gmtime platform t =
     (case t of
        NaN \<Rightarrow> Inl ValueError
      | PlusInf \<Rightarrow> Inl OverflowError
      | MinusInf \<Rightarrow> Inl OverflowError
      | Finite r \<Rightarrow> (case platform \<lfloor>r\<rfloor> of Some e \<Rightarrow> Inl e | None \<Rightarrow> Inr r))"

text \<open>
  The platform of a 64-bit Linux: \<open>time_t\<close> has 64 bits (\<open>OverflowError\<close> outside), and
  the C library converts the seconds whose year fits a 32-bit \<open>int\<close> (\<open>OSError\<close> outside).
\<close>

definition linux_gmtime :: "int \<Rightarrow> py_error option" where
  "linux_gmtime t =
     (if t < - (2 ^ 63) \<or> 2 ^ 63 \<le> t then Some OverflowError
      else if t < - 67768040609740800 \<or> 67768036191676799 < t then Some OSError
      else None)"

text \<open>
  \<open>RLHFPipeline.run\<close> at time \<open>now\<close>, returning the report and the new state, or the error
  raised. The calls of \<open>time.time()\<close> within one run are taken to return the same \<open>now\<close>.
  The first statement after the default of the cutoff formats it for the log, with
  \<open>time.gmtime(since_ts)\<close>, and so raises before anything is loaded when the cutoff cannot
  be converted.
\<close>

definition run ::
  "(string \<Rightarrow> string) \<Rightarrow> (int \<Rightarrow> py_error option) \<Rightarrow> rlhf_state \<Rightarrow> real \<Rightarrow> float_arg option
     \<Rightarrow> py_error + ((string \<times> json) list \<times> rlhf_state)" where
  "run md5 platform st now since_ts =
     (case gmtime platform
             (case since_ts of None \<Rightarrow> Finite (now - 7 * 24 * 3600) | Some t \<Rightarrow> t) of
        Inl e \<Rightarrow> Inl e
      | Inr since \<Rightarrow>
          let records = load_since (feedback_file st) since
          in if records = []
             then Inr ([(''status'', JStr ''no_new_feedback''), (''records'', JInt 0)], st)
             else
               let (arms', arm_changes) = linucb_update (linucb_arms st) records now;
                   prefs' = retrieval_update md5 now (retrieval_prefs st) records;
                   signal_counts =
                     foldl (\<lambda>acc r. bump_count (signal_value (fr_signal r)) acc) [] records;
                   intent_rewards =
                     foldl (\<lambda>acc r. append_reward (fr_intent r) (reward_compute r now) acc)
                       [] records;
                   avg_reward_by_intent =
                     map (\<lambda>(intent, rewards). (intent, JNum (py_round (mean rewards) 4)))
                       intent_rewards;
                   report =
                     [(''run_at'', JNum now),
                      (''period_start'', JNum since),
                      (''records_processed'', JInt (int (length records))),
                      (''signal_breakdown'', JObj (map (\<lambda>(k, n). (k, JInt n)) signal_counts)),
                      (''avg_reward_by_intent'', JObj avg_reward_by_intent),
                      (''arm_updates'', JObj arm_changes),
                      (''top_arm_ranking'', JArr (get_rankings arms')),
                      (''status'', JStr ''success'')]
               in Inr (report,
                       st\<lparr>linucb_arms := arms', retrieval_prefs := prefs', last_run := now,
                          reports := reports st @ [(\<lfloor>now\<rfloor>, report)]\<rparr>))"

text \<open>The pipeline as \<open>RLHFPipeline()\<close> builds it when no weights file and no
  preferences file exist, over a given feedback file.\<close>

definition new_arm_stats :: "string \<Rightarrow> arm_stats" where
  "new_arm_stats name =
     \<lparr>as_arm = name, n_samples = 0, total_reward = 0, avg_reward = 0,
      as_A = eye 11, as_b = zeros 11\<rparr>"

definition new_rlhf_state :: "feedback_record option list \<Rightarrow> rlhf_state" where
  "new_rlhf_state file =
     \<lparr>feedback_file = file, linucb_arms = map (\<lambda>arm. (arm, new_arm_stats arm)) ACTIONS,
      retrieval_prefs = Map.empty, last_run = 0, reports = []\<rparr>"

section \<open>Session memory (memory.py)\<close>

text \<open>
  The window memory object itself is LangChain's \<open>ConversationBufferWindowMemory\<close>, which
  memory.py constructs with \<open>k = window_size\<close> but does not implement. The next four
  definitions take its behaviour from the spec.
\<close>

type_synonym exchange = "string \<times> string"

text \<open>Modelled from the spec: the memory object of a session, missing from the sources.
  A session owns an ordered, bounded buffer of (question, answer) exchanges of capacity
  \<open>window_size\<close>.\<close>

record window_memory =
  wm_k :: nat
  wm_buffer :: "exchange list"

text \<open>The last \<open>k\<close> elements of a list, in their order.\<close>

definition last_window :: "nat \<Rightarrow> 'a list \<Rightarrow> 'a list" where
  "last_window k xs = drop (length xs - k) xs"

text \<open>Modelled from the spec: the constructor of the memory object, missing from the
  sources. A session is created with no exchanges.\<close>

definition new_window_memory :: "nat \<Rightarrow> window_memory" where
  "new_window_memory k = \<lparr>wm_k = k, wm_buffer = []\<rparr>"

text \<open>Modelled from the spec: the append of the memory object, missing from the sources.
  Exchanges are appended in arrival order; pairs older than the last \<open>window_size\<close> are
  dropped, first in first out, and never summarized.\<close>

definition save_context :: "window_memory \<Rightarrow> exchange \<Rightarrow> window_memory" where
  "save_context m e = m\<lparr>wm_buffer := last_window (wm_k m) (wm_buffer m @ [e])\<rparr>"

text \<open>Modelled from the spec: the read of the memory object, missing from the sources.
  The memory exposes its exchanges as ordered context, oldest first.\<close>

definition load_memory_variables :: "window_memory \<Rightarrow> exchange list" where
  "load_memory_variables m = wm_buffer m"

text \<open>\<open>MemoryEntry\<close> and the module's \<open>_sessions\<close>, from memory.py.\<close>

record memory_entry =
  me_session_id :: string
  window_size :: nat
  created_at :: real
  last_accessed :: real
  memory :: window_memory

definition new_memory_entry :: "real \<Rightarrow> string \<Rightarrow> nat \<Rightarrow> memory_entry" where
  "new_memory_entry now sid w =
     \<lparr>me_session_id = sid, window_size = w, created_at = now, last_accessed = now,
      memory = new_window_memory w\<rparr>"

definition MEMORY_WINDOW_SIZE :: nat where "MEMORY_WINDOW_SIZE = 5"

text \<open>\<open>get_memory\<close> at time \<open>now\<close>: the session's entry is created when missing, and touched.
  The source returns the memory object of the entry; the model returns the updated store,
  from which \<open>session_memory\<close> reads that object.\<close>

definition get_memory ::
  "(string \<rightharpoonup> memory_entry) \<Rightarrow> real \<Rightarrow> string \<Rightarrow> nat \<Rightarrow> (string \<rightharpoonup> memory_entry)" where
  "get_memory sessions now sid w =
     (let sessions' = (if sessions sid = None then sessions(sid \<mapsto> new_memory_entry now sid w)
                       else sessions)
      in case sessions' sid of
           None \<Rightarrow> sessions'
         | Some entry \<Rightarrow> sessions'(sid \<mapsto> entry\<lparr>last_accessed := now\<rparr>))"

definition session_memory :: "(string \<rightharpoonup> memory_entry) \<Rightarrow> string \<Rightarrow> window_memory option" where
  "session_memory sessions sid = map_option memory (sessions sid)"

text \<open>An exchange appended to the memory object of a session, as the chain does after
  an answer.\<close>

definition append_exchange ::
  "(string \<rightharpoonup> memory_entry) \<Rightarrow> string \<Rightarrow> exchange \<Rightarrow> (string \<rightharpoonup> memory_entry)" where
  "append_exchange sessions sid e =
     (case sessions sid of
        None \<Rightarrow> sessions
      | Some entry \<Rightarrow> sessions(sid \<mapsto> entry\<lparr>memory := save_context (memory entry) e\<rparr>))"

text \<open>\<open>evict_stale_sessions\<close> at time \<open>now\<close>: every session whose last access is more than
  \<open>max_age_seconds\<close> old is removed. The source returns their number; the model returns
  the store.\<close>

definition evict_stale_sessions ::
  "(string \<rightharpoonup> memory_entry) \<Rightarrow> real \<Rightarrow> real \<Rightarrow> (string \<rightharpoonup> memory_entry)" where
  "evict_stale_sessions sessions now max_age_seconds =
     (\<lambda>sid. case sessions sid of
              None \<Rightarrow> None
            | Some entry \<Rightarrow>
                if now - last_accessed entry > max_age_seconds then None else Some entry)"

text \<open>
  One query on a session, as \<open>RAGPipeline.query\<close> of rag.py runs it at time \<open>now\<close>: when
  the random draw is below \<open>0.01\<close> (\<open>evict\<close>) the stale sessions are evicted, with the
  default age of \<open>3600\<close> seconds; \<open>_build_chain\<close> calls \<open>get_memory(session_id)\<close>, so with
  the configured window size \<open>w\<close>; and the chain saves the question and the answer into
  the memory object that \<open>get_memory\<close> returned.
\<close>

type_synonym turn = "real \<times> bool \<times> exchange"

definition query_turn ::
  "nat \<Rightarrow> string \<Rightarrow> (string \<rightharpoonup> memory_entry) \<Rightarrow> turn \<Rightarrow> (string \<rightharpoonup> memory_entry)" where
  "query_turn w sid sessions t =
     (case t of
        (now, evict, e) \<Rightarrow>
          let sessions1 = (if evict then evict_stale_sessions sessions now 3600 else sessions);
              sessions2 = get_memory sessions1 now sid w
          in append_exchange sessions2 sid e)"

text \<open>No query of the list finds the session stale: whenever a query evicts, the access
  before it (at time \<open>t\<close> for the first query) is at most \<open>3600\<close> seconds old.\<close>

fun stays_live :: "real \<Rightarrow> turn list \<Rightarrow> bool" where
  "stays_live t [] = True"
| "stays_live t ((now, evict, e) # ts) =
     ((if evict then now - t \<le> 3600 else True) \<and> stays_live now ts)"

definition clear_session :: "(string \<rightharpoonup> memory_entry) \<Rightarrow> string \<Rightarrow> bool \<times> (string \<rightharpoonup> memory_entry)" where
  "clear_session sessions sid =
     (if sessions sid \<noteq> None then (True, sessions(sid := None)) else (False, sessions))"

section \<open>Properties of the sentiment analyser\<close>

lemma chars_nonempty: "[] \<notin> set (chars s)"
  by (induction s rule: chars.induct) auto

lemma dropWhile_all_iff: "(\<forall>x \<in> set (dropWhile P xs). P x) \<longleftrightarrow> (\<forall>x \<in> set xs. P x)"
proof
  assume h: "\<forall>x \<in> set (dropWhile P xs). P x"
  have "set xs = set (takeWhile P xs) \<union> set (dropWhile P xs)"
    by (metis set_append takeWhile_dropWhile_id)
  with h show "\<forall>x \<in> set xs. P x"
    by (auto dest: set_takeWhileD)
next
  assume "\<forall>x \<in> set xs. P x"
  then show "\<forall>x \<in> set (dropWhile P xs). P x"
    by (auto dest: set_dropWhileD)
qed

lemma strip_empty_iff: "strip s = [] \<longleftrightarrow> (\<forall>ch \<in> set (chars s). is_whitespace ch)"
proof -
  let ?inner = "dropWhile is_whitespace (chars s)"
  let ?kept = "dropWhile is_whitespace (rev ?inner)"
  have sub: "set ?kept \<subseteq> set (chars s)"
  proof
    fix ch
    assume "ch \<in> set ?kept"
    then have "ch \<in> set (rev ?inner)" by (rule set_dropWhileD)
    then have "ch \<in> set ?inner" by simp
    then show "ch \<in> set (chars s)" by (rule set_dropWhileD)
  qed
  have "strip s = [] \<longleftrightarrow> (\<forall>ch \<in> set ?kept. ch = [])"
    by (simp add: strip_def)
  also have "\<dots> \<longleftrightarrow> ?kept = []"
  proof
    assume h: "\<forall>ch \<in> set ?kept. ch = []"
    show "?kept = []"
    proof (rule ccontr)
      assume "?kept \<noteq> []"
      then obtain ch where ch: "ch \<in> set ?kept" by (cases ?kept) auto
      with h have "ch = []" by blast
      with ch sub chars_nonempty [of s] show False by blast
    qed
  next
    assume e: "?kept = []"
    show "\<forall>ch \<in> set ?kept. ch = []" unfolding e by simp
  qed
  also have "\<dots> \<longleftrightarrow> (\<forall>ch \<in> set (rev ?inner). is_whitespace ch)"
    by (simp add: dropWhile_eq_Nil_conv)
  also have "\<dots> \<longleftrightarrow> (\<forall>ch \<in> set (chars s). is_whitespace ch)"
    using dropWhile_all_iff [of is_whitespace "chars s"] by simp
  finally show ?thesis .
qed

text \<open>
  C9. For a text with at least one character that is not whitespace, \<open>analyze\<close> never
  answers the style \<open>balanced\<close>: the confidence level is \<open>high\<close> or \<open>low\<close>; when it is
  \<open>low\<close>, or the anxiety is \<open>high\<close>, the style is \<open>reassure_and_educate\<close>; and when it is
  \<open>high\<close> and none of the earlier rules of the decision table fires, the style is
  \<open>concise_expert\<close>. This holds whatever the FinBERT pipeline answers.
\<close>

theorem analyze_never_balanced:
  assumes "list_ex (\<lambda>ch. \<not> is_whitespace ch) (chars text)"
  shows "response_style (analyze pipeline text) \<noteq> ''balanced''
       \<and> (confidence_level (analyze pipeline text) = ''high''
            \<or> confidence_level (analyze pipeline text) = ''low'')
       \<and> (confidence_level (analyze pipeline text) = ''low''
            \<or> anxiety_level (analyze pipeline text) = ''high''
          \<longrightarrow> response_style (analyze pipeline text) = ''reassure_and_educate'')
       \<and> (confidence_level (analyze pipeline text) = ''high''
            \<and> anxiety_level (analyze pipeline text) \<noteq> ''high''
            \<and> urgency_level (analyze pipeline text) \<noteq> ''high''
            \<and> polarity (analyze pipeline text) \<noteq> ''positive''
          \<longrightarrow> response_style (analyze pipeline text) = ''concise_expert'')"
proof -
  from assms have ne: "strip text \<noteq> []"
    by (auto simp: strip_empty_iff list_ex_iff)
  show ?thesis
    using ne
    by (simp add: analyze_def Let_def determine_response_style_def
             split: prod.splits option.splits)
qed

theorem analyze_never_balanced_witness:
  "list_ex (\<lambda>ch. \<not> is_whitespace ch) (chars ([CHR 0xC2, CHR 0xA0] @ ''Compare both regimes''))
   \<and> response_style (analyze None ([CHR 0xC2, CHR 0xA0] @ ''Compare both regimes''))
       \<noteq> ''balanced''
   \<and> confidence_level (analyze None ([CHR 0xC2, CHR 0xA0] @ ''Compare both regimes''))
       = ''high''"
proof -
  have h: "list_ex (\<lambda>ch. \<not> is_whitespace ch)
             (chars ([CHR 0xC2, CHR 0xA0] @ ''Compare both regimes''))"
    by code_simp
  have c: "confidence_level (analyze None ([CHR 0xC2, CHR 0xA0] @ ''Compare both regimes''))
             = ''high''"
    by code_simp
  from analyze_never_balanced [OF h, of None] c show ?thesis
    using h by blast
qed

text \<open>A text of whitespace only gets the style \<open>balanced\<close>, also when the whitespace is
  not that of ASCII: here a no-break space, an em space and an ideographic space.\<close>

lemma analyze_blank_is_balanced:
  "response_style
     (analyze None [CHR 0xC2, CHR 0xA0, CHR 0xE2, CHR 0x80, CHR 0x83, CHR 0xE3, CHR 0x80, CHR 0x80])
     = ''balanced''"
  by code_simp

section \<open>Properties of the hallucination detector and of the confidence gate\<close>

lemma check_step_inv:
  assumes "cs_facts_passed st \<le> cs_facts_checked st"
      and "cs_findings st = [] \<longleftrightarrow> cs_facts_passed st = cs_facts_checked st"
  shows "cs_facts_passed (check_step q t st f) \<le> cs_facts_checked (check_step q t st f)
       \<and> (cs_findings (check_step q t st f) = []
            \<longleftrightarrow> cs_facts_passed (check_step q t st f) = cs_facts_checked (check_step q t st f))"
  using assms by (auto simp: check_step_def Let_def)

lemma check_loop_inv:
  assumes "cs_facts_passed st \<le> cs_facts_checked st"
      and "cs_findings st = [] \<longleftrightarrow> cs_facts_passed st = cs_facts_checked st"
  shows "cs_facts_passed (check_loop q t st fs) \<le> cs_facts_checked (check_loop q t st fs)
       \<and> (cs_findings (check_loop q t st fs) = []
            \<longleftrightarrow> cs_facts_passed (check_loop q t st fs) = cs_facts_checked (check_loop q t st fs))"
  using assms
proof (induction fs arbitrary: st)
  case Nil
  then show ?case by simp
next
  case (Cons f fs)
  from check_step_inv [OF Cons.prems] show ?case
    by (simp add: Cons.IH)
qed

lemma py_round_zero: "py_round 0 n = 0"
  by (simp add: py_round_def round_half_even_def)

lemma check_registry_counts:
  "facts_passed (check_registry reg thr text qc) \<le> facts_checked (check_registry reg thr text qc)
   \<and> (findings (check_registry reg thr text qc) = []
        \<longleftrightarrow> facts_passed (check_registry reg thr text qc)
             = facts_checked (check_registry reg thr text qc))"
proof -
  let ?st0 = "\<lparr>cs_findings = [], cs_facts_checked = 0, cs_facts_passed = 0,
               cs_ca_review = False\<rparr>"
  have "cs_facts_passed ?st0 \<le> cs_facts_checked ?st0"
    and "cs_findings ?st0 = [] \<longleftrightarrow> cs_facts_passed ?st0 = cs_facts_checked ?st0"
    by simp_all
  from check_loop_inv [OF this, of qc "lower text" reg] show ?thesis
    by (simp add: check_registry_def Let_def)
qed

text \<open>
  C3, as the code has it. \<open>check\<close> returns as confidence the proportion of failed facts
  \<open>(facts_checked - facts_passed) / facts_checked\<close> rounded to four decimal places, and
  \<open>0\<close> when no fact is applicable; \<open>is_hallucination\<close> holds exactly when the proportion
  itself, before rounding, is at least the threshold and there is a finding; with no
  applicable fact it does not hold.
\<close>

theorem check_confidence_rounded:
  "hr_confidence (check thr text qc) =
     (if facts_checked (check thr text qc) = 0 then 0
      else py_round ((real (facts_checked (check thr text qc))
                       - real (facts_passed (check thr text qc)))
                     / real (facts_checked (check thr text qc))) 4)
   \<and> is_hallucination (check thr text qc) =
       (thr \<le> (if facts_checked (check thr text qc) = 0 then 0
                else (real (facts_checked (check thr text qc))
                       - real (facts_passed (check thr text qc)))
                     / real (facts_checked (check thr text qc)))
        \<and> findings (check thr text qc) \<noteq> [])
   \<and> (if facts_checked (check thr text qc) = 0
       then is_hallucination (check thr text qc) = False else True)"
proof -
  have a: "hr_confidence (check thr text qc) =
     (if facts_checked (check thr text qc) = 0 then 0
      else py_round ((real (facts_checked (check thr text qc))
                       - real (facts_passed (check thr text qc)))
                     / real (facts_checked (check thr text qc))) 4)"
    by (simp add: check_def check_registry_def Let_def raw_confidence_def py_round_zero)
  have b: "is_hallucination (check thr text qc) =
       (thr \<le> (if facts_checked (check thr text qc) = 0 then 0
                else (real (facts_checked (check thr text qc))
                       - real (facts_passed (check thr text qc)))
                     / real (facts_checked (check thr text qc)))
        \<and> findings (check thr text qc) \<noteq> [])"
    by (simp add: check_def check_registry_def Let_def raw_confidence_def)
  have c: "facts_checked (check thr text qc) = 0 \<Longrightarrow> findings (check thr text qc) = []"
    using check_registry_counts [of FACT_REGISTRY thr "text" qc] by (simp add: check_def)
  from a b c show ?thesis by simp
qed

lemma check_stcg_15: "check (3/10) ''STCG is 15%'' None =
  \<lparr>hr_category = ''general'', is_hallucination = True, hr_confidence = 3333 / 10000,
    findings =
      [\<lparr>finding_fact_key = ''stcg_111a_rate'', finding_type = OUTDATED_RATE,
          found_in_text = ''15%'', expected = ''20%'', severity = ''high''\<rparr>],
    facts_checked = 3, facts_passed = 2, needs_ca_review = True\<rparr>"
  by code_simp

theorem check_confidence_rounded_witness:
  "hr_confidence (check (3/10) ''STCG is 15%'' None) = py_round (1/3) 4
   \<and> is_hallucination (check (3/10) ''STCG is 15%'' None)"
  using check_confidence_rounded [of "3/10" "''STCG is 15%''" None]
  by (simp add: check_stcg_15)

text \<open>The claim as it is written fails on the answer \<open>STCG is 15%\<close>, checked without a
  category: one fact of three fails and the confidence returned is \<open>0.3333\<close>, not a third.\<close>

theorem check_confidence_counterexample:
  "0 < facts_checked (check (3/10) ''STCG is 15%'' None)
   \<and> hr_confidence (check (3/10) ''STCG is 15%'' None)
       \<noteq> (real (facts_checked (check (3/10) ''STCG is 15%'' None))
            - real (facts_passed (check (3/10) ''STCG is 15%'' None)))
          / real (facts_checked (check (3/10) ''STCG is 15%'' None))"
  by (simp add: check_stcg_15)

text \<open>
  C1. Whenever the hallucination check of the answer returns \<open>is_hallucination\<close>, the
  scorer escalates to CA review, whatever the query, the retrieval signals and the intent
  confidence are, and so whatever the numeric confidence is: the result is flagged, its
  reason is the hallucination, and the answer is put at the head of the review queue.
\<close>

theorem hallucination_forces_escalation:
  assumes "is_hallucination (check_answer answer (Some category'))"
  shows "escalate_to_ca (fst (score True queue query answer category' retrieval ic))
       \<and> cr_escalation_reason (fst (score True queue query answer category' retrieval ic))
           = Some (Hallucination_detected
                     (hr_confidence (check_answer answer (Some category'))))
       \<and> disclaimer_text (fst (score True queue query answer category' retrieval ic))
           = Flagged_for_review
       \<and> snd (score True queue query answer category' retrieval ic) \<noteq> []
       \<and> ri_query (hd (snd (score True queue query answer category' retrieval ic))) = query
       \<and> ri_answer (hd (snd (score True queue query answer category' retrieval ic)))
           = take 500 answer"
  using assms
  by (simp add: score_def Let_def add_to_ca_queue_def build_disclaimer_def)

lemma check_answer_stcg_equity:
  "is_hallucination (check_answer ''STCG on equity is 15%.'' (Some ''capital_gains''))"
  by code_simp

theorem hallucination_forces_escalation_witness:
  "is_hallucination (check_answer ''STCG on equity is 15%.'' (Some ''capital_gains''))
   \<and> escalate_to_ca (fst (score True [] ''What is STCG tax rate on equity shares?''
         ''STCG on equity is 15%.'' ''capital_gains'' None (88/100)))"
  using hallucination_forces_escalation [OF check_answer_stcg_equity, of "[]"
          "''What is STCG tax rate on equity shares?''" None "88/100"]
        check_answer_stcg_equity
  by blast

lemma check_answer_one_of_four:
  "check_answer ''STCG 15%, LTCG 12.5%, 194C, 194IA'' (Some ''capital_gains'') =
   \<lparr>hr_category = ''capital_gains'', is_hallucination = False, hr_confidence = 1 / 4,
    findings =
      [\<lparr>finding_fact_key = ''stcg_111a_rate'', finding_type = OUTDATED_RATE,
          found_in_text = ''15%'', expected = ''20%'', severity = ''high''\<rparr>],
    facts_checked = 4, facts_passed = 3, needs_ca_review = True\<rparr>"
  by code_simp

lemma score_one_of_four:
  "escalate_to_ca (fst (score True [] ''STCG?'' ''STCG 15%, LTCG 12.5%, 194C, 194IA''
      ''capital_gains''
      (Some \<lparr>top_similarity_score = 9/10, avg_similarity_score = 8/10,
             num_chunks_retrieved = 4, chunk_diversity = 5/10, has_exact_match = False\<rparr>)
      (88/100))) = False
   \<and> snd (score True [] ''STCG?'' ''STCG 15%, LTCG 12.5%, 194C, 194IA''
      ''capital_gains''
      (Some \<lparr>top_similarity_score = 9/10, avg_similarity_score = 8/10,
             num_chunks_retrieved = 4, chunk_diversity = 5/10, has_exact_match = False\<rparr>)
      (88/100)) = []"
  by code_simp

text \<open>
  C2 does not hold of the code. The detector sets \<open>needs_ca_review\<close> for every finding of
  severity high or critical, but the scorer escalates on \<open>is_hallucination\<close> or on a low
  numeric confidence only. On the answer below one fact of four fails: the finding has
  severity high and the review flag is set, \<open>is_hallucination\<close> is false, the numeric
  confidence is above the threshold, and nothing is escalated or queued.
\<close>

theorem high_severity_finding_not_escalated:
  "needs_ca_review (check_answer ''STCG 15%, LTCG 12.5%, 194C, 194IA'' (Some ''capital_gains''))
   \<and> map severity (findings (check_answer ''STCG 15%, LTCG 12.5%, 194C, 194IA''
                                (Some ''capital_gains''))) = [''high'']
   \<and> is_hallucination (check_answer ''STCG 15%, LTCG 12.5%, 194C, 194IA''
                          (Some ''capital_gains'')) = False
   \<and> escalate_to_ca (fst (score True [] ''STCG?'' ''STCG 15%, LTCG 12.5%, 194C, 194IA''
        ''capital_gains''
        (Some \<lparr>top_similarity_score = 9/10, avg_similarity_score = 8/10,
               num_chunks_retrieved = 4, chunk_diversity = 5/10, has_exact_match = False\<rparr>)
        (88/100))) = False
   \<and> snd (score True [] ''STCG?'' ''STCG 15%, LTCG 12.5%, 194C, 194IA''
        ''capital_gains''
        (Some \<lparr>top_similarity_score = 9/10, avg_similarity_score = 8/10,
               num_chunks_retrieved = 4, chunk_diversity = 5/10, has_exact_match = False\<rparr>)
        (88/100)) = []"
  using score_one_of_four by (simp add: check_answer_one_of_four)

section \<open>Properties of feedback recording\<close>

text \<open>
  C10. For a session with a recorded selection (an arm and a context), \<open>record_feedback\<close>
  uses the reward \<open>+1\<close> exactly when the rating is \<open>up\<close> and \<open>-1\<close> for every other
  rating: the session's feedback count grows by exactly one, its feedback sum by the
  reward, and the bandit is the result of \<open>update\<close> on the recorded arm and context with
  that reward (left as it was when that update raises). For a session with no recorded
  selection nothing is reported, the bandit is unchanged, and the session's state reads as
  before, as every other session's does.
\<close>

theorem record_feedback_effect:
  "(session_rl_states g sid = Some s \<and> last_action_idx s = Some a \<and> last_context s = Some x
      \<longrightarrow> session_rl_states (snd (record_feedback g sid rating))
            = (session_rl_states g)
                (sid \<mapsto> s\<lparr>feedback_sum := feedback_sum s + (if rating = ''up'' then 1 else - 1),
                           feedback_count := feedback_count s + 1\<rparr>)
          \<and> (case update (the_bandit g) a x (if rating = ''up'' then 1 else - 1) of
                Inl e \<Rightarrow> fst (record_feedback g sid rating) = Some e
                          \<and> the_bandit (snd (record_feedback g sid rating)) = the_bandit g
              | Inr bd' \<Rightarrow> fst (record_feedback g sid rating) = None
                          \<and> the_bandit (snd (record_feedback g sid rating)) = bd'))
   \<and> ((case session_rl_states g sid of
          None \<Rightarrow> True
        | Some s' \<Rightarrow> last_action_idx s' = None \<or> last_context s' = None)
      \<longrightarrow> fst (record_feedback g sid rating) = None
          \<and> the_bandit (snd (record_feedback g sid rating)) = the_bandit g
          \<and> fst (get_session_rl_state (snd (record_feedback g sid rating)) sid)
              = fst (get_session_rl_state g sid)
          \<and> (\<forall>sid'. sid' \<noteq> sid \<longrightarrow>
                session_rl_states (snd (record_feedback g sid rating)) sid'
                  = session_rl_states g sid'))"
proof (intro conjI impI)
  assume h: "session_rl_states g sid = Some s \<and> last_action_idx s = Some a
             \<and> last_context s = Some x"
  then show "session_rl_states (snd (record_feedback g sid rating))
            = (session_rl_states g)
                (sid \<mapsto> s\<lparr>feedback_sum := feedback_sum s + (if rating = ''up'' then 1 else - 1),
                           feedback_count := feedback_count s + 1\<rparr>)"
    by (simp add: record_feedback_def get_session_rl_state_def Let_def split: sum.splits)
  from h show "case update (the_bandit g) a x (if rating = ''up'' then 1 else - 1) of
                Inl e \<Rightarrow> fst (record_feedback g sid rating) = Some e
                          \<and> the_bandit (snd (record_feedback g sid rating)) = the_bandit g
              | Inr bd' \<Rightarrow> fst (record_feedback g sid rating) = None
                          \<and> the_bandit (snd (record_feedback g sid rating)) = bd'"
    by (simp add: record_feedback_def get_session_rl_state_def Let_def split: sum.splits)
next
  assume h: "case session_rl_states g sid of
          None \<Rightarrow> True
        | Some s' \<Rightarrow> last_action_idx s' = None \<or> last_context s' = None"
  have r: "record_feedback g sid rating = (None, snd (get_session_rl_state g sid))"
    using h
    by (auto simp: record_feedback_def get_session_rl_state_def Let_def
                   new_session_rl_state_def split: option.splits)
  show "fst (record_feedback g sid rating) = None" by (simp add: r)
  show "the_bandit (snd (record_feedback g sid rating)) = the_bandit g"
    by (simp add: r get_session_rl_state_def split: option.splits)
  show "fst (get_session_rl_state (snd (record_feedback g sid rating)) sid)
              = fst (get_session_rl_state g sid)"
    by (simp add: r get_session_rl_state_def split: option.splits)
  show "\<forall>sid'. sid' \<noteq> sid \<longrightarrow>
                session_rl_states (snd (record_feedback g sid rating)) sid'
                  = session_rl_states g sid'"
    by (simp add: r get_session_rl_state_def split: option.splits)
qed

section \<open>Properties of the weekly RLHF run\<close>

lemma load_since_later:
  assumes "load_since lines c = []" and "c \<le> c'"
  shows "load_since lines c' = []"
  using assms
  by (induction lines) (auto simp: load_since_def split: option.splits if_splits)

text \<open>
  A run that finds no record at or after its cutoff, which the platform can convert:
  it returns, the state is returned as it was (the arms' statistics, the retrieval
  preferences, the time of the last run, the reports written), and a second run on that
  state with a cutoff that is not earlier does the same.
\<close>

lemma run_without_feedback_is_noop:
  assumes "gmtime platform (case since_ts of None \<Rightarrow> Finite (now - 7 * 24 * 3600) | Some t \<Rightarrow> t)
             = Inr c"
      and "gmtime platform
             (case since_ts' of None \<Rightarrow> Finite (now' - 7 * 24 * 3600) | Some t \<Rightarrow> t) = Inr c'"
      and "load_since (feedback_file st) c = []"
      and "c \<le> c'"
  shows "run md5 platform st now since_ts
           = Inr ([(''status'', JStr ''no_new_feedback''), (''records'', JInt 0)], st)
       \<and> run md5 platform st now' since_ts'
           = Inr ([(''status'', JStr ''no_new_feedback''), (''records'', JInt 0)], st)"
proof -
  have first: "run md5 platform st now since_ts
           = Inr ([(''status'', JStr ''no_new_feedback''), (''records'', JInt 0)], st)"
    using assms(1,3) by (simp add: run_def Let_def)
  have "load_since (feedback_file st) c' = []"
    using load_since_later [OF assms(3) assms(4)] .
  then have "run md5 platform st now' since_ts'
           = Inr ([(''status'', JStr ''no_new_feedback''), (''records'', JInt 0)], st)"
    using assms(2) by (simp add: run_def Let_def)
  with first show ?thesis by simp
qed

text \<open>A cutoff that cannot be converted makes \<open>run\<close> raise, whatever the feedback file
  holds.\<close>

lemma run_raises_on_bad_cutoff:
  "run md5 linux_gmtime st now (Some NaN) = Inl ValueError
   \<and> run md5 linux_gmtime st now (Some PlusInf) = Inl OverflowError
   \<and> run md5 linux_gmtime st now (Some (Finite (10 ^ 18))) = Inl OSError"
  by (simp add: run_def gmtime_def linux_gmtime_def)

text \<open>
  C7. The claim asks that a run without new feedback reports \<open>records_processed = 0\<close>. On
  an empty feedback file, with the default cutoff, \<open>run\<close> returns and leaves the state
  as it was, also when it is run a second time a minute later; but its report holds the
  count under the key \<open>records\<close> and has no key \<open>records_processed\<close>, the key under which
  the report of a run that finds a record holds its count.
\<close>

theorem run_without_feedback_reports_records:
  "run (\<lambda>q. q) linux_gmtime (new_rlhf_state []) 1000000 None
     = Inr ([(''status'', JStr ''no_new_feedback''), (''records'', JInt 0)], new_rlhf_state [])
   \<and> run (\<lambda>q. q) linux_gmtime (new_rlhf_state []) 1000060 None
     = Inr ([(''status'', JStr ''no_new_feedback''), (''records'', JInt 0)], new_rlhf_state [])
   \<and> map_of [(''status'', JStr ''no_new_feedback''), (''records'', JInt 0)]
        ''records_processed'' = None
   \<and> map_sum id (\<lambda>r. map_of (fst r) ''records_processed'')
        (run (\<lambda>q. q) linux_gmtime
           (new_rlhf_state
              [Some \<lparr>fr_id = ''f1'', fr_ts = 999000, fr_session_id = ''s1'', fr_query = ''q'',
                     fr_answer = ''a'', fr_action = ''full_pipeline'', fr_intent = ''tax'',
                     fr_signal = THUMBS_UP, fr_reward = 1\<rparr>])
           1000000 None)
       = Inr (Some (JInt 1))"
  by (simp add: run_def gmtime_def linux_gmtime_def load_since_def new_rlhf_state_def
                Let_def split: prod.splits)

section \<open>Properties of the session memory\<close>

lemma last_window_step:
  "last_window k (last_window k xs @ ys) = last_window k (xs @ ys)"
proof (cases "length xs \<le> k")
  case True
  then show ?thesis by (simp add: last_window_def)
next
  case False
  then have "length xs - (length xs - k) = k" by simp
  with False show ?thesis by (simp add: last_window_def add.commute)
qed

lemma save_context_buffer:
  "wm_buffer (foldl save_context (save_context m e) es)
     = last_window (wm_k m) (wm_buffer m @ e # es)
   \<and> wm_k (foldl save_context (save_context m e) es) = wm_k m"
proof (induction es arbitrary: m e)
  case Nil
  show ?case by (simp add: save_context_def)
next
  case (Cons e' es)
  let ?m = "save_context m e"
  have k: "wm_k ?m = wm_k m" by (simp add: save_context_def)
  have b: "wm_buffer ?m = last_window (wm_k m) (wm_buffer m @ [e])"
    by (simp add: save_context_def)
  from Cons.IH [of ?m e']
  have "wm_buffer (foldl save_context (save_context ?m e') es)
          = last_window (wm_k m) (last_window (wm_k m) (wm_buffer m @ [e]) @ e' # es)"
    and k': "wm_k (foldl save_context (save_context ?m e') es) = wm_k m"
    by (simp_all add: k b)
  then have "wm_buffer (foldl save_context (save_context ?m e') es)
          = last_window (wm_k m) ((wm_buffer m @ [e]) @ e' # es)"
    by (simp only: last_window_step)
  with k' show ?case by simp
qed

lemma query_turn_new:
  assumes "sessions sid = None"
  shows "query_turn w sid sessions (now, evict, e) sid
           = Some ((new_memory_entry now sid w)
                     \<lparr>last_accessed := now, memory := save_context (new_window_memory w) e\<rparr>)"
  using assms
  by (simp add: query_turn_def evict_stale_sessions_def get_memory_def append_exchange_def
                Let_def new_memory_entry_def)

lemma query_turn_live:
  assumes "sessions sid = Some entry"
      and "if evict then now - last_accessed entry \<le> 3600 else True"
  shows "query_turn w sid sessions (now, evict, e) sid
           = Some (entry\<lparr>last_accessed := now, memory := save_context (memory entry) e\<rparr>)"
  using assms
  by (simp add: query_turn_def evict_stale_sessions_def get_memory_def append_exchange_def
                Let_def split: if_splits)

lemma queries_live:
  assumes "sessions sid = Some entry" and "stays_live (last_accessed entry) turns"
  shows "\<exists>entry'. foldl (query_turn w sid) sessions turns sid = Some entry'
                 \<and> memory entry' = foldl save_context (memory entry) (map (\<lambda>t. snd (snd t)) turns)"
  using assms
proof (induction turns arbitrary: sessions entry)
  case Nil
  then show ?case by simp
next
  case (Cons t turns)
  obtain now evict e where t: "t = (now, evict, e)" by (cases t) auto
  let ?entry = "entry\<lparr>last_accessed := now, memory := save_context (memory entry) e\<rparr>"
  from Cons.prems t have live: "if evict then now - last_accessed entry \<le> 3600 else True"
    and rest: "stays_live now turns"
    by simp_all
  have step: "query_turn w sid sessions t sid = Some ?entry"
    unfolding t using Cons.prems(1) live by (rule query_turn_live)
  from rest have "stays_live (last_accessed ?entry) turns" by simp
  from Cons.IH [of "query_turn w sid sessions t" ?entry, OF step this]
  show ?case by (simp add: t)
qed

text \<open>
  C8. A session receives more queries than the window of its memory holds: the memory is
  the one \<open>get_memory\<close> creates at the first of them, with the configured window size, or
  the one the store already has for the session. Every query calls \<open>get_memory\<close> anew and
  saves its exchange into the memory returned, and none of them finds the session stale.
  Then the memory exposes exactly the exchanges of the last \<open>window\<close> queries, oldest
  first.
\<close>

theorem window_exposes_last_exchanges:
  assumes "m = (case sessions sid of None \<Rightarrow> new_window_memory w | Some entry \<Rightarrow> memory entry)"
      and "stays_live (case sessions sid of None \<Rightarrow> fst (hd turns)
                        | Some entry \<Rightarrow> last_accessed entry) turns"
      and "wm_k m < length turns"
  shows "map_option load_memory_variables
           (session_memory (foldl (query_turn w sid) sessions turns) sid)
           = Some (drop (length turns - wm_k m) (map (\<lambda>t. snd (snd t)) turns))
       \<and> length (drop (length turns - wm_k m) (map (\<lambda>t. snd (snd t)) turns)) = wm_k m
       \<and> (if sessions sid = None then wm_k m = w else True)"
proof -
  let ?es = "map (\<lambda>t. snd (snd t)) turns"
  from assms(3) obtain t rest where turns: "turns = t # rest" by (cases turns) auto
  obtain now evict e where t: "t = (now, evict, e)" by (cases t) auto
  have mem: "\<exists>entry'. foldl (query_turn w sid) sessions turns sid = Some entry'
                      \<and> memory entry' = foldl save_context m ?es"
  proof (cases "sessions sid")
    case None
    let ?entry = "(new_memory_entry now sid w)
                     \<lparr>last_accessed := now, memory := save_context (new_window_memory w) e\<rparr>"
    have step: "query_turn w sid sessions t sid = Some ?entry"
      unfolding t using None by (rule query_turn_new)
    from assms(2) None turns t have "stays_live (last_accessed ?entry) rest" by simp
    from queries_live [where sessions = "query_turn w sid sessions t" and entry = ?entry,
                       OF step this] assms(1) None
    show ?thesis by (simp add: turns t)
  next
    case (Some entry)
    with assms(2) have "stays_live (last_accessed entry) turns" by simp
    from queries_live [where sessions = sessions and entry = entry, OF Some this]
         assms(1) Some
    show ?thesis by simp
  qed
  have buf: "wm_buffer (foldl save_context m ?es) = drop (length turns - wm_k m) ?es"
  proof -
    from save_context_buffer [of m e "map (\<lambda>t. snd (snd t)) rest"] turns t
    have "wm_buffer (foldl save_context m ?es) = last_window (wm_k m) (wm_buffer m @ ?es)"
      by simp
    with assms(3) show ?thesis by (simp add: last_window_def)
  qed
  from mem buf have a: "map_option load_memory_variables
           (session_memory (foldl (query_turn w sid) sessions turns) sid)
           = Some (drop (length turns - wm_k m) ?es)"
    by (auto simp: session_memory_def load_memory_variables_def)
  have b: "length (drop (length turns - wm_k m) ?es) = wm_k m"
    using assms(3) by simp
  have c: "sessions sid = None \<Longrightarrow> wm_k m = w"
    using assms(1) by (simp add: new_window_memory_def)
  from a b c show ?thesis by simp
qed

theorem window_exposes_last_exchanges_witness:
  "map_option load_memory_variables
     (session_memory
        (foldl (query_turn 5 ''s1'') Map.empty
           [(0, False, (''q1'', ''a1'')), (60, True, (''q2'', ''a2'')),
            (120, False, (''q3'', ''a3'')), (3000, True, (''q4'', ''a4'')),
            (6600, True, (''q5'', ''a5'')), (6660, False, (''q6'', ''a6''))]) ''s1'')
   = Some [(''q2'', ''a2''), (''q3'', ''a3''), (''q4'', ''a4''), (''q5'', ''a5''),
           (''q6'', ''a6'')]"
proof -
  let ?turns = "[(0, False, (''q1'', ''a1'')), (60, True, (''q2'', ''a2'')),
                 (120, False, (''q3'', ''a3'')), (3000, True, (''q4'', ''a4'')),
                 (6600, True, (''q5'', ''a5'')), (6660, False, (''q6'', ''a6''))]
                  :: turn list"
  have a: "new_window_memory 5
             = (case (Map.empty :: string \<rightharpoonup> memory_entry) ''s1'' of
                  None \<Rightarrow> new_window_memory 5 | Some entry \<Rightarrow> memory entry)"
    by simp
  have b: "stays_live (case (Map.empty :: string \<rightharpoonup> memory_entry) ''s1'' of
                         None \<Rightarrow> fst (hd ?turns) | Some entry \<Rightarrow> last_accessed entry) ?turns"
    by simp
  have c: "wm_k (new_window_memory 5) < length ?turns"
    by (simp add: new_window_memory_def)
  from window_exposes_last_exchanges [OF a b c] show ?thesis
    by (simp add: new_window_memory_def)
qed

text \<open>A session that a query finds stale is created anew, and its earlier exchanges are
  gone.\<close>

lemma stale_session_starts_again:
  "map_option load_memory_variables
     (session_memory
        (foldl (query_turn 5 ''s1'') Map.empty
           [(0, False, (''q1'', ''a1'')), (3601, True, (''q2'', ''a2''))]) ''s1'')
   = Some [(''q2'', ''a2'')]"
  by (simp add: query_turn_def evict_stale_sessions_def get_memory_def append_exchange_def
                Let_def new_memory_entry_def new_window_memory_def save_context_def
                last_window_def session_memory_def load_memory_variables_def)
section \<open>Vectors and matrices as lists\<close>

lemma length_scale [simp]: "length (scale k xs) = length xs"
  by (simp add: scale_def)

lemma length_vec_add [simp]: "length (vec_add xs ys) = min (length xs) (length ys)"
  by (induction xs ys rule: vec_add.induct) auto

lemma length_vec_sub [simp]: "length (vec_sub xs ys) = min (length xs) (length ys)"
  by (induction xs ys rule: vec_sub.induct) auto



lemma dot_Nil_right [simp]: "dot xs [] = 0"
  by (cases xs) auto

lemma dot_commute: "dot xs ys = dot ys xs"
  by (induction xs ys rule: dot.induct) auto






lemma dot_zeros_left [simp]: "dot (zeros n) ys = 0"
  unfolding zeros_def by (induction n arbitrary: ys) (case_tac ys; simp)+

lemma dot_zeros_right [simp]: "dot xs (zeros n) = 0"
  by (simp add: dot_commute [of xs])

lemma length_zeros [simp]: "length (zeros n) = n"
  by (simp add: zeros_def)




lemma length_unit_vec [simp]: "length (unit_vec n j) = n"
  by (simp add: unit_vec_def)






lemma length_mat_vec [simp]: "length (mat_vec M v) = length M"
  by (simp add: mat_vec_def)


lemma length_mat_add [simp]: "length (mat_add M N) = min (length M) (length N)"
  by (induction M N rule: mat_add.induct) auto


lemma length_outer [simp]: "length (outer x y) = length x"
  by (simp add: outer_def)











section \<open>Positive definiteness of the arms' matrices\<close>




section \<open>The elimination solves the system, and fails only on a singular one\<close>









lemma set_zip_rows:
  "length M = length rhs \<Longrightarrow> e \<in> set (zip M rhs) \<longleftrightarrow> (\<exists>i < length M. e = (M ! i, rhs ! i))"
  by (auto simp: set_zip)





section \<open>The inverse and the scores of a positive definite arm\<close>




lemma quad_form_nonneg:
  assumes "pos_def n M" and "length u = n"
  shows "0 \<le> quad_form M u"
proof (cases "u = zeros n")
  case True
  then show ?thesis by (simp add: quad_form_def)
next
  case False
  with assms show ?thesis by (simp add: pos_def_def less_imp_le)
qed

section \<open>The first of the largest scores\<close>

lemma argmax_from_spec:
  assumes "best < length pre" and "bv = (pre @ ss) ! best"
      and "\<forall>j < length pre. (pre @ ss) ! j \<le> bv"
      and "\<forall>j < best. (pre @ ss) ! j < bv"
  shows "argmax_from best bv (length pre) ss < length (pre @ ss)
       \<and> (\<forall>j < length (pre @ ss).
             (pre @ ss) ! j \<le> (pre @ ss) ! argmax_from best bv (length pre) ss)
       \<and> (\<forall>j < argmax_from best bv (length pre) ss.
             (pre @ ss) ! j < (pre @ ss) ! argmax_from best bv (length pre) ss)"
  using assms
proof (induction ss arbitrary: pre best bv)
  case Nil
  then show ?case by simp
next
  case (Cons s ss)
  let ?pre = "pre @ [s]"
  have eq: "?pre @ ss = pre @ s # ss" by simp
  show ?case
  proof (cases "bv < s")
    case True
    have a: "length pre < length ?pre" by simp
    have b: "s = (?pre @ ss) ! length pre" by simp
    have c: "\<forall>j < length ?pre. (?pre @ ss) ! j \<le> s"
    proof (intro allI impI)
      fix j assume "j < length ?pre"
      then consider "j < length pre" | "j = length pre" by force
      then show "(?pre @ ss) ! j \<le> s"
      proof cases
        case 1
        with Cons.prems(3) have "(pre @ s # ss) ! j \<le> bv" by simp
        with True show ?thesis by (simp add: eq)
      next
        case 2
        then show ?thesis by simp
      qed
    qed
    have d: "\<forall>j < length pre. (?pre @ ss) ! j < s"
    proof (intro allI impI)
      fix j assume "j < length pre"
      with Cons.prems(3) have "(pre @ s # ss) ! j \<le> bv" by simp
      with True show "(?pre @ ss) ! j < s" by (simp add: eq)
    qed
    from Cons.IH [of "length pre" ?pre s, OF a b c d] True
    show ?thesis by (simp add: eq)
  next
    case False
    have a: "best < length ?pre" using Cons.prems(1) by simp
    have b: "bv = (?pre @ ss) ! best" using Cons.prems(2) by (simp add: eq)
    have c: "\<forall>j < length ?pre. (?pre @ ss) ! j \<le> bv"
    proof (intro allI impI)
      fix j assume "j < length ?pre"
      then consider "j < length pre" | "j = length pre" by force
      then show "(?pre @ ss) ! j \<le> bv"
      proof cases
        case 1
        with Cons.prems(3) show ?thesis by (simp add: eq)
      next
        case 2
        with False show ?thesis by simp
      qed
    qed
    have d: "\<forall>j < best. (?pre @ ss) ! j < bv"
      using Cons.prems(4) by (simp add: eq)
    from Cons.IH [of best ?pre bv, OF a b c d] False
    show ?thesis by (simp add: eq)
  qed
qed

lemma argmax_first_spec:
  assumes "ss \<noteq> []"
  shows "argmax_first ss < length ss
       \<and> (\<forall>j < length ss. ss ! j \<le> ss ! argmax_first ss)
       \<and> (\<forall>j < argmax_first ss. ss ! j < ss ! argmax_first ss)"
proof -
  from assms obtain s rest where ss: "ss = s # rest" by (cases ss) auto
  have "argmax_from 0 s (length [s]) rest < length ([s] @ rest)
       \<and> (\<forall>j < length ([s] @ rest).
             ([s] @ rest) ! j \<le> ([s] @ rest) ! argmax_from 0 s (length [s]) rest)
       \<and> (\<forall>j < argmax_from 0 s (length [s]) rest.
             ([s] @ rest) ! j < ([s] @ rest) ! argmax_from 0 s (length [s]) rest)"
    by (rule argmax_from_spec) simp_all
  then show ?thesis by (simp add: ss argmax_first_def)
qed

section \<open>The selection is the first of the largest rounded scores\<close>

lemma ucb_scores_loop_scores:
  assumes "ucb_scores_loop np a arms x = Inr ss"
  shows "length ss = length arms
       \<and> (\<forall>i < length arms. ucb_score np a (arms ! i) x = Inr (ss ! i))"
  using assms
proof (induction arms arbitrary: ss)
  case Nil
  then show ?case by simp
next
  case (Cons st arms)
  from Cons.prems obtain s rest
    where s: "ucb_score np a st x = Inr s"
      and rest: "ucb_scores_loop np a arms x = Inr rest"
      and ss: "ss = s # rest"
    by (auto split: sum.splits)
  from Cons.IH [OF rest]
  have "length rest = length arms"
    and "\<forall>i < length arms. ucb_score np a (arms ! i) x = Inr (rest ! i)"
    by simp_all
  with s ss show ?case by (auto simp: nth_Cons')
qed

text \<open>
  Whatever numpy returns: when \<open>select_action\<close> returns, the scores it reports are the
  rounded sums of the five arms, and the arm it returns is the first whose rounded score is
  the largest.
\<close>

lemma select_action_first_of_largest_rounded:
  assumes "select_action np bd x = Inr (k, name, scores, bd')"
  shows "\<exists>ss. scores = zip ACTIONS ss \<and> length ss = N_ACTIONS \<and> name = ACTIONS ! k
              \<and> (\<forall>i < N_ACTIONS. ucb_score np (alpha bd) (stats bd ! i) x = Inr (ss ! i))
              \<and> k < N_ACTIONS
              \<and> (\<forall>i < N_ACTIONS. ss ! i \<le> ss ! k)
              \<and> (\<forall>i < k. ss ! i < ss ! k)"
proof -
  from assms obtain ss
    where loop: "ucb_scores_loop np (alpha bd) (take N_ACTIONS (stats bd)) x = Inr ss"
      and len: "length (stats bd) = N_ACTIONS"
      and k: "k = argmax_first ss" and name: "name = ACTIONS ! k"
      and scores: "scores = zip ACTIONS ss"
    by (auto simp: select_action_def Let_def split: sum.splits if_splits)
  from ucb_scores_loop_scores [OF loop] len
  have lss: "length ss = N_ACTIONS"
    and sc: "\<forall>i < N_ACTIONS. ucb_score np (alpha bd) (stats bd ! i) x = Inr (ss ! i)"
    by simp_all
  have ne: "ss \<noteq> []" using lss by (auto simp: N_ACTIONS_def ACTIONS_def)
  from argmax_first_spec [OF ne] lss k
  have "k < N_ACTIONS" "\<forall>i < N_ACTIONS. ss ! i \<le> ss ! k" "\<forall>i < k. ss ! i < ss ! k"
    by simp_all
  with scores lss name sc show ?thesis by blast
qed

section \<open>Updates without rounding keep the arms positive definite\<close>

lemma update_valid:
  assumes "0 \<le> idx" and "nat idx < length (stats bd)"
      and "length x = length (arm_b (stats bd ! nat idx))"
  shows "update bd idx x r
           = Inr (bd\<lparr>stats := (stats bd)[nat idx := update_stats (stats bd ! nat idx) x r]\<rparr>)"
  using assms by (auto simp: update_def Let_def broadcast_context_def)










lemma update_Inl_target:
  assumes "update bd idx context r = Inl e"
  shows "update_target bd idx context = None"
  using assms
  by (auto simp: update_def update_target_def Let_def split: if_splits option.splits)



section \<open>Evaluation of the float64 operations\<close>

lemmas fl_eval =
  fl64_def ulp_def binade_def bit_length.simps round_half_even_def Let_def power_int_def
  power_divide

text \<open>The float64 numbers of the statements below, and one number that float64 has not:
  \<open>10\<^sup>1\<^sup>6 + 1\<close> lies half way between two of them and goes to the even one.\<close>

lemma fl64_consts:
  "fl64 0 = 0" "fl64 1 = 1" "fl64 (- 1) = - 1" "fl64 2 = 2" "fl64 3 = 3" "fl64 4 = 4"
  "fl64 5 = 5" "fl64 8 = 8"
  "fl64 (1/2) = 1/2" "fl64 (1/4) = 1/4" "fl64 (- (1/4)) = - (1/4)" "fl64 (3/4) = 3/4"
  "fl64 (3/2) = 3/2" "fl64 (5/4) = 5/4" "fl64 (5/8) = 5/8"
  "fl64 (1/8192) = 1/8192" "fl64 (1/32768) = 1/32768" "fl64 (8193/32768) = 8193/32768"
  "fl64 100000000 = 100000000" "fl64 10000000000000000 = 10000000000000000"
  "fl64 10000000000000001 = 10000000000000000"
  "fl64 134217728 = 134217728" "fl64 268435456 = 268435456"
  "fl64 (1/134217728) = 1/134217728"
  "fl64 18014398509481984 = 18014398509481984"
  "fl64 18014398509481985 = 18014398509481984"
  "fl64 36028797018963968 = 36028797018963968"
  by (simp_all add: fl_eval)


lemmas bandit_eval =
  scale_def outer_def eye_def unit_vec_def zeros_def transpose_mat_def column_def
  update_stats_def new_action_stats_def new_bandit_def CONTEXT_DIM_def N_ACTIONS_def
  ACTIONS_def update_def broadcast_context_def upt_conv_Cons eval_nat_numeral Let_def

lemmas numpy_eval =
  numpy64_def fl_dot_def fl_vecmat_def fl_eliminate_def back_substitute_def theta_def
  ucb_sum_def ucb_score_def mean_estimate_def float_round_def py_round_def
  round_half_even_def select_action_def argmax_first_def


lemma sqrt_quarter: "sqrt (1 / 4) = 1 / 2"
  by (rule real_sqrt_unique) (simp_all add: power2_eq_square)

section \<open>Properties of the strategy selector\<close>







lemma update_all_tie_calls:
  "update_all (new_bandit (1/2)) tie_calls
     = \<lparr>alpha = 1/2,
        stats = [tie_arm 0, tie_arm (1/8192), tie_arm (- 1), tie_arm (- 1), tie_arm (- 1)],
        total_selections = [0, 0, 0, 0, 0]\<rparr>"
  by (simp add: tie_calls_def tie_arm_def bandit_eval fl64_consts)

lemma ucb_sum_tie_arm:
  "ucb_sum numpy64 (1/2) (tie_arm 0) [0, 0, 0, 0, 0, 0, 0, 0, 0, 0, 1] = Inr (1/4)"
  "ucb_sum numpy64 (1/2) (tie_arm (1/8192)) [0, 0, 0, 0, 0, 0, 0, 0, 0, 0, 1]
     = Inr (8193/32768)"
  "ucb_sum numpy64 (1/2) (tie_arm (- 1)) [0, 0, 0, 0, 0, 0, 0, 0, 0, 0, 1] = Inr 0"
  by (simp_all add: tie_arm_def numpy_eval unit_vec_def transpose_mat_def column_def
                    upt_conv_Cons eval_nat_numeral Let_def fl64_consts sqrt_quarter)

lemma float_round_tie:
  "float_round (1/4) 4 = 1/4" "float_round (8193/32768) 4 = 1/4" "float_round 0 4 = 0"
  by (simp_all add: float_round_def py_round_def round_half_even_def fl64_consts)

text \<open>
  C4. The claim has \<open>select_action\<close> return the arm with the largest score. On the bandit
  above and the context with the bias term only, the sum \<open>mean + uncertainty\<close> of the
  second arm, \<open>0.250030517578125\<close>, is larger than that of the first, \<open>0.25\<close>, and than
  those of the others; both are stored rounded to four places, as \<open>0.25\<close>, and
  \<open>select_action\<close> returns the first arm.
\<close>

theorem select_action_rounds_before_argmax:
  "map_sum id (\<lambda>(k, name, scores, bd'). (k, name, scores, total_selections bd'))
     (select_action numpy64 (update_all (new_bandit (1/2)) tie_calls)
        [0, 0, 0, 0, 0, 0, 0, 0, 0, 0, 1])
     = Inr (0, ''retrieval_only'',
            [(''retrieval_only'', 1/4), (''intent_boosted'', 1/4), (''sentiment_adapted'', 0),
             (''entity_focused'', 0), (''full_pipeline'', 0)],
            [1, 0, 0, 0, 0])
   \<and> map (\<lambda>st. ucb_sum numpy64 (1/2) st [0, 0, 0, 0, 0, 0, 0, 0, 0, 0, 1])
        (stats (update_all (new_bandit (1/2)) tie_calls))
       = [Inr (1/4), Inr (8193/32768), Inr 0, Inr 0, Inr 0]
   \<and> (1/4 :: real) < 8193/32768"
  unfolding update_all_tie_calls
  by (simp add: select_action_def ucb_score_def ucb_sum_tie_arm float_round_tie
                argmax_first_def N_ACTIONS_def ACTIONS_def)
section \<open>The mean estimate under repeated positive feedback\<close>













section \<open>A recorded selection, and the feedback on it\<close>

theorem record_feedback_effect_witness:
  "fst (record_feedback
          \<lparr>session_rl_states =
             [''s1'' \<mapsto> \<lparr>srs_session_id = ''s1'', exchange_count = 1, feedback_sum = 0,
                          feedback_count = 0, last_action_idx = Some 0,
                          last_context = Some [1, 0, 0, 0, 1, 0, 0, 0, 1, 0, 1]\<rparr>],
           the_bandit = new_bandit (1/2)\<rparr> ''s1'' ''meh'') = None
   \<and> session_rl_states
        (snd (record_feedback
          \<lparr>session_rl_states =
             [''s1'' \<mapsto> \<lparr>srs_session_id = ''s1'', exchange_count = 1, feedback_sum = 0,
                          feedback_count = 0, last_action_idx = Some 0,
                          last_context = Some [1, 0, 0, 0, 1, 0, 0, 0, 1, 0, 1]\<rparr>],
           the_bandit = new_bandit (1/2)\<rparr> ''s1'' ''meh'')) ''s1''
      = Some \<lparr>srs_session_id = ''s1'', exchange_count = 1, feedback_sum = - 1,
              feedback_count = 1, last_action_idx = Some 0,
              last_context = Some [1, 0, 0, 0, 1, 0, 0, 0, 1, 0, 1]\<rparr>
   \<and> fst (record_feedback
          \<lparr>session_rl_states = Map.empty, the_bandit = new_bandit (1/2)\<rparr> ''s2'' ''up'') = None
   \<and> the_bandit (snd (record_feedback
          \<lparr>session_rl_states = Map.empty, the_bandit = new_bandit (1/2)\<rparr> ''s2'' ''up''))
      = new_bandit (1/2)"
proof -
  let ?s = "\<lparr>srs_session_id = ''s1'', exchange_count = 1, feedback_sum = 0,
             feedback_count = 0, last_action_idx = Some 0,
             last_context = Some [1, 0, 0, 0, 1, 0, 0, 0, 1, 0, 1]\<rparr>"
  let ?g = "\<lparr>session_rl_states = [''s1'' \<mapsto> ?s], the_bandit = new_bandit (1/2)\<rparr>"
  let ?h = "\<lparr>session_rl_states = Map.empty, the_bandit = new_bandit (1/2)\<rparr>"
  have u: "update (new_bandit (1/2)) 0 [1, 0, 0, 0, 1, 0, 0, 0, 1, 0, 1] (- 1)
             = Inr ((new_bandit (1/2))
                      \<lparr>stats := (stats (new_bandit (1/2)))
                         [nat 0 := update_stats (stats (new_bandit (1/2)) ! nat 0)
                                     [1, 0, 0, 0, 1, 0, 0, 0, 1, 0, 1] (- 1)]\<rparr>)"
    by (rule update_valid)
       (simp_all add: new_bandit_def N_ACTIONS_def ACTIONS_def new_action_stats_def
                      CONTEXT_DIM_def zeros_def)
  from record_feedback_effect
         [of ?g "''s1''" ?s 0 "[1, 0, 0, 0, 1, 0, 0, 0, 1, 0, 1]" "''meh''"]
  have a: "fst (record_feedback ?g ''s1'' ''meh'') = None"
    and b: "session_rl_states (snd (record_feedback ?g ''s1'' ''meh'')) ''s1''
              = Some (?s\<lparr>feedback_sum := - 1, feedback_count := 1\<rparr>)"
    by (simp_all add: u)
  from record_feedback_effect [of ?h "''s2''" ?s 0 "[]" "''up''"]
  have c: "fst (record_feedback ?h ''s2'' ''up'') = None"
    and d: "the_bandit (snd (record_feedback ?h ''s2'' ''up'')) = new_bandit (1/2)"
    by simp_all
  from a b c d show ?thesis by simp
qed


end
